theory Spec2Isabelle
  imports Complex_Main
begin

section \<open>Numbers, errors and the numeric primitives\<close>

text \<open>
  The C++ type \<open>real\<close> (a binary floating-point number) is embedded as the
  mathematical reals. Rounding, overflow to infinity and NaN are therefore outside the
  model; the one place where the source divides by a zero size is written out as an
  error value. Row and target ids (\<open>int32_t\<close>) and counters (\<open>int64_t\<close>) are
  embedded as \<open>int\<close>; no function below does arithmetic on an id. The softmax of
  \<open>computeOutputSoftmax\<close>, whose subtraction of the maximum matters for floating-point
  overflow only, is for that reason not embedded.
\<close>

type_synonym vector = "real list"
type_synonym matrix = "real list list"

datatype error =
    InvalidArgument
  | PreconditionViolation
  | NotANumber
  | NoReturn

definition bind_res :: "error + 'a \<Rightarrow> ('a \<Rightarrow> error + 'b) \<Rightarrow> error + 'b" where
  "bind_res r f = (case r of Inl e \<Rightarrow> Inl e | Inr v \<Rightarrow> f v)"

text \<open>
  The classes \<open>Vector\<close> and \<open>Matrix\<close> (vector.cc, matrix.cc, densematrix.cc) are
  defined outside the files verified here. Their operations are taken from the spec (4.1):
  zero-fill; add a scalar multiple of a matrix row into a vector; add a scalar multiple
  of a vector into a matrix row; dot product of a vector with a matrix row; in-place
  scalar multiply. Mismatched dimensions and row ids out of
  bounds are fatal programming errors (spec 4.1, 7), embedded as
  \<open>Inl PreconditionViolation\<close>. A matrix is the list of its rows.
\<close>

text \<open>Modelled from the spec: the dot product of two vectors (4.1), the sum of the
  products of their entries.\<close>

definition dot :: "vector \<Rightarrow> vector \<Rightarrow> real" where
  "dot xs ys = sum_list (map2 (*) xs ys)"

text \<open>Modelled from the spec: the precondition of every row operation (4.1, 7): the row
  id is within the bounds of the matrix and the row has the width of the vector operand.\<close>

definition row_ok :: "matrix \<Rightarrow> int \<Rightarrow> nat \<Rightarrow> bool" where
  "row_ok A i n \<longleftrightarrow> 0 \<le> i \<and> i < int (length A) \<and> length (A ! nat i) = n"

text \<open>Modelled from the spec: \<open>Vector::zero\<close>, zero-fill (4.1).\<close>

definition Vector_zero :: "vector \<Rightarrow> vector" where
  "Vector_zero v = replicate (length v) 0"

text \<open>Modelled from the spec: \<open>Vector::mul\<close> by a scalar, in-place scalar multiply
  (4.1).\<close>

definition Vector_mul :: "vector \<Rightarrow> real \<Rightarrow> vector" where
  "Vector_mul v a = map (\<lambda>x. x * a) v"

text \<open>Modelled from the spec: \<open>Vector::addRow(A, i)\<close>, add row \<open>i\<close> of a matrix into
  the vector (4.1, with scale one).\<close>

definition Vector_addRow :: "vector \<Rightarrow> matrix \<Rightarrow> int \<Rightarrow> error + vector" where
  "Vector_addRow v A i =
     (if row_ok A i (length v) then Inr (map2 (\<lambda>x y. x + y) v (A ! nat i))
      else Inl PreconditionViolation)"

text \<open>Modelled from the spec: \<open>Vector::addRow(A, i, a)\<close>, add \<open>a\<close> times row \<open>i\<close> of a
  matrix into the vector (4.1).\<close>

definition Vector_addRow_scaled :: "vector \<Rightarrow> matrix \<Rightarrow> int \<Rightarrow> real \<Rightarrow> error + vector" where
  "Vector_addRow_scaled v A i a =
     (if row_ok A i (length v) then Inr (map2 (\<lambda>x y. x + a * y) v (A ! nat i))
      else Inl PreconditionViolation)"

text \<open>Modelled from the spec: \<open>Matrix::dotRow(v, i)\<close>, dot product of a vector with row
  \<open>i\<close> (4.1).\<close>

definition Matrix_dotRow :: "matrix \<Rightarrow> vector \<Rightarrow> int \<Rightarrow> error + real" where
  "Matrix_dotRow A v i =
     (if row_ok A i (length v) then Inr (dot (A ! nat i) v)
      else Inl PreconditionViolation)"

text \<open>Modelled from the spec: \<open>Matrix::addRow(v, i, a)\<close>, add \<open>a\<close> times a vector into
  row \<open>i\<close> (4.1).\<close>

definition Matrix_addRow :: "matrix \<Rightarrow> vector \<Rightarrow> int \<Rightarrow> real \<Rightarrow> error + matrix" where
  "Matrix_addRow A v i a =
     (if row_ok A i (length v)
      then Inr (A[nat i := map2 (\<lambda>x y. x + a * y) (A ! nat i) v])
      else Inl PreconditionViolation)"

text \<open>Modelled from the spec: \<open>Matrix::addVectorToRow(v, i, a)\<close>, the name of the same
  operation in the State-based interface (4.3: the gradient is added into every input
  row).\<close>

definition Matrix_addVectorToRow :: "matrix \<Rightarrow> vector \<Rightarrow> int \<Rightarrow> real \<Rightarrow> error + matrix" where
  "Matrix_addVectorToRow A v i a = Matrix_addRow A v i a"

section \<open>Worker state and model parameters\<close>

text \<open>
  \<open>Model::State\<close> (model.cc, constructor at lines 21-27). The field \<open>output\<close>
  is called \<open>output_vec\<close> here. The generator \<open>rng\<close> is kept as the position it
  selects in the sampling table (the member \<open>negpos\<close> of the member-based code).
\<close>

record state =
  lossValue :: real
  nexamples :: int
  hidden :: vector
  output_vec :: vector
  grad :: vector
  rng :: nat

text \<open>
  The members of \<open>Model\<close> that its functions read and never write. The constant
  \<open>kUnlimitedPredictions\<close>, the macros \<open>MAX_SIGMOID\<close> and \<open>SIGMOID_TABLE_SIZE\<close>,
  the table \<open>t_sigmoid_\<close> (filled by \<open>initSigmoid\<close>) and the function \<open>log\<close> are
  declared outside the files verified here and are parameters: fields of this record.
  \<open>neg\<close> is \<open>args_->neg\<close>. The two shared matrices \<open>wi_\<close> and \<open>wo_\<close> are
  mutated and are passed explicitly instead.
\<close>

record model =
  kUnlimitedPredictions :: int
  normalizeGradient :: bool
  neg :: int
  negatives :: "int list"
  codes :: "bool list list"
  paths :: "int list list"
  MAX_SIGMOID :: real
  SIGMOID_TABLE_SIZE :: int
  t_sigmoid :: "real list"
  log_fn :: "real \<Rightarrow> real"

definition incrementNExamples :: "state \<Rightarrow> real \<Rightarrow> state" where
  "incrementNExamples st loss =
     st\<lparr>lossValue := lossValue st + loss, nexamples := nexamples st + 1\<rparr>"

section \<open>Model::computeHidden\<close>

text \<open>The loop of \<open>computeHidden\<close> (model.cc lines 49-51).\<close>

fun computeHidden_loop :: "matrix \<Rightarrow> int list \<Rightarrow> vector \<Rightarrow> error + vector" where
  "computeHidden_loop wi [] h = Inr h"
| "computeHidden_loop wi (i # rest) h =
     bind_res (Vector_addRow h wi i) (computeHidden_loop wi rest)"

text \<open>
  \<open>computeHidden\<close> (model.cc lines 45-53). For an empty input the source multiplies
  by \<open>1.0 / 0\<close>; the reals have no infinity, so that case is the error
  \<open>NotANumber\<close>.
\<close>

definition computeHidden :: "matrix \<Rightarrow> int list \<Rightarrow> state \<Rightarrow> error + state" where
  "computeHidden wi input st =
     bind_res (computeHidden_loop wi input (Vector_zero (hidden st))) (\<lambda>h.
       if length input = 0 then Inl NotANumber
       else Inr (st\<lparr>hidden := Vector_mul h (1 / real (length input))\<rparr>))"

section \<open>Model::update\<close>

text \<open>
  \<open>loss_->forward\<close> is a virtual call into the loss object, whose class is defined
  outside the files verified here; it is a parameter of \<open>update\<close>. A loss object holds
  the output matrix and is handed the worker state (spec 4.2, 4.3), so the parameter maps
  the output matrix and the state to a loss value and their new contents.
\<close>

type_synonym forward_fn =
  "matrix \<Rightarrow> int list \<Rightarrow> int \<Rightarrow> state \<Rightarrow> real \<Rightarrow> bool \<Rightarrow> error + (real \<times> matrix \<times> state)"

text \<open>The scatter loop of \<open>update\<close> (model.cc lines 91-93).\<close>

fun update_scatter :: "matrix \<Rightarrow> vector \<Rightarrow> int list \<Rightarrow> error + matrix" where
  "update_scatter wi g [] = Inr wi"
| "update_scatter wi g (i # rest) =
     bind_res (Matrix_addVectorToRow wi g i 1) (\<lambda>wi'. update_scatter wi' g rest)"

text \<open>\<open>update\<close> (model.cc lines 72-94).\<close>

definition update ::
  "forward_fn \<Rightarrow> model \<Rightarrow> matrix \<Rightarrow> matrix \<Rightarrow> int list \<Rightarrow> int list \<Rightarrow> int \<Rightarrow> real \<Rightarrow> state
     \<Rightarrow> error + (matrix \<times> matrix \<times> state)" where
  "update forward m wi wo input targets targetIndex lr st =
     (if length input = 0 then Inr (wi, wo, st)
      else
        bind_res (computeHidden wi input st) (\<lambda>st1.
        let st2 = st1\<lparr>grad := Vector_zero (grad st1)\<rparr> in
        bind_res (forward wo targets targetIndex st2 lr True) (\<lambda>(lossValue, wo', st3).
        let st4 = incrementNExamples st3 lossValue;
            st5 = (if normalizeGradient m
                   then st4\<lparr>grad := Vector_mul (grad st4) (1 / real (length input))\<rparr>
                   else st4) in
        bind_res (update_scatter wi (grad st5) input) (\<lambda>wi'.
        Inr (wi', wo', st5)))))"

section \<open>Model::predict\<close>

text \<open>
  The result heap holds (score, id) pairs. \<open>loss_->predict\<close> is a virtual call into the
  loss object and is a parameter. \<open>predict\<close> is a \<open>const\<close> member: it returns
  neither matrix. An exception is the value \<open>Inl\<close>, carrying the heap and the worker
  state as they are when it is thrown. \<open>heap.reserve\<close> changes the capacity of the heap
  and none of its entries; the narrowing of the row count to \<open>int32_t\<close> and the overflow
  of \<open>k + 1\<close> at the largest \<open>k\<close> are not modelled. Where \<open>computeHidden\<close> gives
  \<open>NotANumber\<close> the model stops with that error (the source goes on with values the
  reals do not have).
\<close>

type_synonym predictions = "(real \<times> int) list"

type_synonym predict_fn =
  "int \<Rightarrow> real \<Rightarrow> predictions \<Rightarrow> state
     \<Rightarrow> (error \<times> predictions \<times> state) + (predictions \<times> state)"

text \<open>Lines 66-69 of \<open>predict\<close>, with the value of \<open>k\<close> they are reached with.\<close>

definition predict_run ::
  "predict_fn \<Rightarrow> matrix \<Rightarrow> int list \<Rightarrow> int \<Rightarrow> real \<Rightarrow> predictions \<Rightarrow> state
     \<Rightarrow> (error \<times> predictions \<times> state) + (predictions \<times> state)" where
  "predict_run lossPredict wi input k threshold heap st =
     (case computeHidden wi input st of
        Inl e \<Rightarrow> Inl (e, heap, st)
      | Inr st1 \<Rightarrow> lossPredict k threshold heap st1)"

text \<open>\<open>predict\<close> (model.cc lines 55-70).\<close>

definition predict ::
  "predict_fn \<Rightarrow> model \<Rightarrow> matrix \<Rightarrow> matrix \<Rightarrow> int list \<Rightarrow> int \<Rightarrow> real \<Rightarrow> predictions \<Rightarrow> state
     \<Rightarrow> (error \<times> predictions \<times> state) + (predictions \<times> state)" where
  "predict lossPredict m wi wo input k threshold heap st =
     (if k = kUnlimitedPredictions m
      then predict_run lossPredict wi input (int (length wo)) threshold heap st
      else if k \<le> 0 then Inl (InvalidArgument, heap, st)
      else predict_run lossPredict wi input k threshold heap st)"

section \<open>Sigmoid\<close>

text \<open>The cast \<open>int64_t(...)\<close> of a floating-point value drops its fraction.\<close>

definition trunc_int64 :: "real \<Rightarrow> int" where
  "trunc_int64 r = (if 0 \<le> r then \<lfloor>r\<rfloor> else \<lceil>r\<rceil>)"

text \<open>
  \<open>sigmoid\<close> (model.cc lines 100-109). Reading the table outside its bounds is
  \<open>PreconditionViolation\<close>; the quotient by a zero \<open>MAX_SIGMOID\<close> is \<open>NotANumber\<close>.
\<close>

definition sigmoid :: "model \<Rightarrow> real \<Rightarrow> error + real" where
  "sigmoid m x =
     (if x < - MAX_SIGMOID m then Inr 0
      else if x > MAX_SIGMOID m then Inr 1
      else if MAX_SIGMOID m = 0 then Inl NotANumber
      else
        let i = trunc_int64
                  ((x + MAX_SIGMOID m) * real_of_int (SIGMOID_TABLE_SIZE m) / MAX_SIGMOID m / 2)
        in if 0 \<le> i \<and> i < int (length (t_sigmoid m)) then Inr (t_sigmoid m ! nat i)
           else Inl PreconditionViolation)"

text \<open>
  The reading of the spec that \<open>sigmoid\<close> is compared with: between two neighbouring
  table entries the value is interpolated linearly.
\<close>

definition sigmoid_interpolated :: "model \<Rightarrow> real \<Rightarrow> error + real" where
  "sigmoid_interpolated m x =
     (if x < - MAX_SIGMOID m then Inr 0
      else if x > MAX_SIGMOID m then Inr 1
      else if MAX_SIGMOID m = 0 then Inl NotANumber
      else
        let p = (x + MAX_SIGMOID m) * real_of_int (SIGMOID_TABLE_SIZE m) / MAX_SIGMOID m / 2;
            i = trunc_int64 p;
            j = (if i + 1 < int (length (t_sigmoid m)) then i + 1 else i)
        in if 0 \<le> i \<and> i < int (length (t_sigmoid m))
           then Inr (t_sigmoid m ! nat i
                     + (p - real_of_int i) * (t_sigmoid m ! nat j - t_sigmoid m ! nat i))
           else Inl PreconditionViolation)"

section \<open>The member-based loss functions\<close>

text \<open>
  \<open>binaryLogistic\<close>, \<open>negativeSampling\<close> and \<open>hierarchicalSoftmax\<close> belong to
  the member-based version of model.cc, the one stored in the file train_brain.sh; the line numbers below are those of that file. They
  are written against the members \<open>hidden_\<close>, \<open>grad_\<close>, \<open>wo_\<close> of \<open>Model\<close> and
  are embedded over the worker state, \<open>hidden_\<close> being \<open>hidden st\<close> and \<open>grad_\<close>
  being \<open>grad st\<close>, which is how the spec (4.2) presents them.
\<close>

text \<open>\<open>binaryLogistic\<close> (train_brain.sh lines 98-108).\<close>

definition binaryLogistic ::
  "model \<Rightarrow> matrix \<Rightarrow> state \<Rightarrow> int \<Rightarrow> bool \<Rightarrow> real \<Rightarrow> error + (real \<times> matrix \<times> state)" where
  "binaryLogistic m wo st target label lr =
     bind_res (Matrix_dotRow wo (hidden st) target) (\<lambda>d.
     bind_res (sigmoid m d) (\<lambda>score.
     let alpha = lr * (of_bool label - score) in
     bind_res (Vector_addRow_scaled (grad st) wo target alpha) (\<lambda>g.
     bind_res (Matrix_addRow wo (hidden st) target alpha) (\<lambda>wo'.
     Inr (if label then - log_fn m score else - log_fn m (1 - score),
          wo', st\<lparr>grad := g\<rparr>)))))"

text \<open>
  Modelled from the spec: \<open>getNegative\<close> is defined outside the files verified here
  (the constructor of the member-based \<open>Model\<close> sets its position \<open>negpos\<close>). The spec
  (4.2) says that negatives are ids drawn from a sampling table built once before
  training, and that a draw equal to the true label is drawn again. The draw reads the
  table at the worker's position and advances the position cyclically; the loop may not
  return (a table holding nothing but the target), which is the value \<open>None\<close>.
\<close>

partial_function (option) getNegative_draw ::
  "int list \<Rightarrow> int \<Rightarrow> nat \<Rightarrow> (error + int \<times> nat) option" where
  "getNegative_draw negs target pos =
     (if pos < length negs
      then (if target = negs ! pos
            then getNegative_draw negs target ((pos + 1) mod length negs)
            else Some (Inr (negs ! pos, (pos + 1) mod length negs)))
      else Some (Inl PreconditionViolation))"

text \<open>
  Modelled from the spec: \<open>getNegative\<close> itself, the draw at the worker's position,
  leaving the advanced position in the worker state.
\<close>

definition getNegative :: "model \<Rightarrow> int \<Rightarrow> state \<Rightarrow> error + (int \<times> state)" where
  "getNegative m target st =
     (case getNegative_draw (negatives m) target (rng st) of
        None \<Rightarrow> Inl NoReturn
      | Some r \<Rightarrow> bind_res r (\<lambda>(negative, pos). Inr (negative, st\<lparr>rng := pos\<rparr>)))"

text \<open>The loop of \<open>negativeSampling\<close> over \<open>n = 0, ..., args_->neg\<close>.\<close>

fun negativeSampling_loop ::
  "model \<Rightarrow> int \<Rightarrow> real \<Rightarrow> int list \<Rightarrow> real \<times> matrix \<times> state
     \<Rightarrow> error + (real \<times> matrix \<times> state)" where
  "negativeSampling_loop m target lr [] acc = Inr acc"
| "negativeSampling_loop m target lr (n # rest) (loss, wo, st) =
     (if n = 0
      then bind_res (binaryLogistic m wo st target True lr) (\<lambda>(l, wo', st').
             negativeSampling_loop m target lr rest (loss + l, wo', st'))
      else bind_res (getNegative m target st) (\<lambda>(negative, st1).
           bind_res (binaryLogistic m wo st1 negative False lr) (\<lambda>(l, wo', st').
             negativeSampling_loop m target lr rest (loss + l, wo', st'))))"

text \<open>\<open>negativeSampling\<close> (train_brain.sh lines 110-121).\<close>

definition negativeSampling ::
  "model \<Rightarrow> matrix \<Rightarrow> state \<Rightarrow> int \<Rightarrow> real \<Rightarrow> error + (real \<times> matrix \<times> state)" where
  "negativeSampling m wo st target lr =
     negativeSampling_loop m target lr [0..neg m]
       (0, wo, st\<lparr>grad := Vector_zero (grad st)\<rparr>)"

text \<open>
  The loop of \<open>hierarchicalSoftmax\<close> over the indices of the path; \<open>i < length
  pathToRoot\<close> is the loop condition, and reading \<open>binaryCode[i]\<close> beyond the code is
  \<open>PreconditionViolation\<close>.
\<close>

fun hierarchicalSoftmax_loop ::
  "model \<Rightarrow> real \<Rightarrow> int list \<Rightarrow> bool list \<Rightarrow> nat list \<Rightarrow> real \<times> matrix \<times> state
     \<Rightarrow> error + (real \<times> matrix \<times> state)" where
  "hierarchicalSoftmax_loop m lr pathToRoot binaryCode [] acc = Inr acc"
| "hierarchicalSoftmax_loop m lr pathToRoot binaryCode (i # rest) (loss, wo, st) =
     (if i < length binaryCode \<and> i < length pathToRoot
      then bind_res (binaryLogistic m wo st (pathToRoot ! i) (binaryCode ! i) lr)
             (\<lambda>(l, wo', st').
               hierarchicalSoftmax_loop m lr pathToRoot binaryCode rest (loss + l, wo', st'))
      else Inl PreconditionViolation)"

text \<open>\<open>hierarchicalSoftmax\<close> (train_brain.sh lines 123-132).\<close>

definition hierarchicalSoftmax ::
  "model \<Rightarrow> matrix \<Rightarrow> state \<Rightarrow> int \<Rightarrow> real \<Rightarrow> error + (real \<times> matrix \<times> state)" where
  "hierarchicalSoftmax m wo st target lr =
     (if 0 \<le> target \<and> target < int (length (codes m)) \<and> target < int (length (paths m))
      then
        let binaryCode = codes m ! nat target;
            pathToRoot = paths m ! nat target
        in hierarchicalSoftmax_loop m lr pathToRoot binaryCode [0..<length pathToRoot]
             (0, wo, st\<lparr>grad := Vector_zero (grad st)\<rparr>)
      else Inl PreconditionViolation)"

section \<open>Definitions that follow the spec\<close>

text \<open>
  Modelled from the spec: the \<open>forward\<close> of the negative-sampling loss object is
  defined outside the files verified here. The spec (4.2) gives the contract
  \<open>forward(targets, targetIndex, state, learningRate, updateGradient) -> loss\<close> and says
  that negative sampling works on one true target; the true target is
  \<open>targets[targetIndex]\<close> and the work is that of \<open>negativeSampling\<close>. It is used to
  run \<open>update\<close> on concrete inputs.
\<close>

definition forward_ns :: "model \<Rightarrow> forward_fn" where
  "forward_ns m wo targets targetIndex st lr backprop =
     (if 0 \<le> targetIndex \<and> targetIndex < int (length targets)
      then negativeSampling m wo st (targets ! nat targetIndex) lr
      else Inl PreconditionViolation)"

text \<open>
  The spec's wording of negative sampling and of hierarchical softmax: a sequence of
  binary-logistic steps, one per (output row, label) pair in the order of the list, each
  on the output matrix and worker state the previous step left, with the list of the
  losses of the steps.
\<close>

fun binaryLogistic_steps ::
  "model \<Rightarrow> real \<Rightarrow> (int \<times> bool) list \<Rightarrow> matrix \<Rightarrow> state
     \<Rightarrow> error + (real list \<times> matrix \<times> state)" where
  "binaryLogistic_steps m lr [] wo st = Inr ([], wo, st)"
| "binaryLogistic_steps m lr ((t, l) # rest) wo st =
     bind_res (binaryLogistic m wo st t l lr) (\<lambda>(x, wo1, st1).
     bind_res (binaryLogistic_steps m lr rest wo1 st1) (\<lambda>(xs, wo2, st2).
     Inr (x # xs, wo2, st2)))"

text \<open>
  A mean that counts duplicates: every distinct id of the input contributes its row as
  many times as it occurs, and the sum is divided by the length of the input.
\<close>

definition counted_mean :: "matrix \<Rightarrow> int list \<Rightarrow> nat \<Rightarrow> vector" where
  "counted_mean wi input n =
     map (\<lambda>j. (\<Sum>i\<in>set input. real (count_list input i) * wi ! nat i ! j)
              / real (length input)) [0..<n]"

text \<open>
  A scatter that counts duplicates: a row whose id occurs \<open>n\<close> times in the input has
  \<open>n\<close> times the gradient added, and every other row is unchanged.
\<close>

definition counted_scatter :: "matrix \<Rightarrow> int list \<Rightarrow> vector \<Rightarrow> matrix" where
  "counted_scatter wi input g =
     map (\<lambda>r. if int r \<in> set input
              then map2 (\<lambda>x y. x + real (count_list input (int r)) * y) (wi ! r) g
              else wi ! r) [0..<length wi]"

text \<open>
  Modelled from the spec: \<open>initSigmoid\<close>, which fills the table, is defined outside
  the files verified here. The spec (4.2) calls it a precomputed lookup table of the
  sigmoid over the domain \<open>[-MAX_X, MAX_X]\<close>: entry \<open>i\<close> is the logistic function
  \<open>1 / (1 + exp (- x))\<close> at the \<open>i\<close>-th of the \<open>size + 1\<close> equally spaced points of the
  domain.
\<close>

definition initSigmoid :: "real \<Rightarrow> int \<Rightarrow> real list" where
  "initSigmoid mx sz =
     map (\<lambda>i. 1 / (1 + exp (- (real i * 2 * mx / real_of_int sz - mx))))
       [0..<nat sz + 1]"

section \<open>A small configuration for evaluation\<close>

text \<open>
  An input matrix of three rows of width two, and a worker whose buffers hold values
  left over from earlier calls.
\<close>

definition wi_ex :: matrix where
  "wi_ex = [[1, 2], [3, 4], [5, 10]]"

definition st_ex :: state where
  "st_ex = \<lparr>lossValue = 0, nexamples = 0, hidden = [7, 7], output_vec = [8, 8, 8],
            grad = [9, 9], rng = 0\<rparr>"

text \<open>
  A model with a five-entry sigmoid table over \<open>[-2, 2]\<close>, an output matrix of three
  rows, and a stand-in for the loss object's \<open>predict\<close> that records the \<open>k\<close> it is
  called with.
\<close>

definition m_ex :: model where
  "m_ex = \<lparr>kUnlimitedPredictions = - 1, normalizeGradient = True, neg = 2,
           negatives = [0, 1, 1, 2], codes = [[True], [False, True], [False, False]],
           paths = [[1], [1, 0], [1, 0]],
           MAX_SIGMOID = 2, SIGMOID_TABLE_SIZE = 4,
           t_sigmoid = [1 / 8, 1 / 4, 1 / 2, 3 / 4, 7 / 8], log_fn = ln\<rparr>"

definition wo_ex :: matrix where
  "wo_ex = [[1 / 4, 0], [0, 1 / 8], [1 / 8, 1 / 8]]"

definition lossPredict_ex :: predict_fn where
  "lossPredict_ex k threshold heap st = Inr (heap @ [(threshold, k)], st)"

text \<open>The worker of the small configuration after \<open>computeHidden\<close> on the ids 0 and 2.\<close>

definition st_ex2 :: state where
  "st_ex2 = st_ex\<lparr>hidden := [3, 6], grad := [0, 0]\<rparr>"

text \<open>The model of the small configuration with the table of \<open>initSigmoid\<close>.\<close>

definition m_sig :: model where
  "m_sig = m_ex\<lparr>t_sigmoid := initSigmoid 2 4\<rparr>"

section \<open>Basic facts\<close>

lemma bind_res_Inr [simp]: "bind_res (Inr v) f = f v"
  by (simp add: bind_res_def)

lemma bind_res_Inl [simp]: "bind_res (Inl e) f = Inl e"
  by (simp add: bind_res_def)

lemma bind_res_eq_Inr:
  "bind_res r f = Inr y \<longleftrightarrow> (\<exists>v. r = Inr v \<and> f v = Inr y)"
  by (cases r) simp_all

section \<open>computeHidden is the mean of the referenced rows\<close>

lemma computeHidden_loop_sum:
  "\<forall>i\<in>set input. row_ok wi i (length h) \<Longrightarrow>
   computeHidden_loop wi input h =
     Inr (map (\<lambda>j. h ! j + (\<Sum>i\<leftarrow>input. wi ! nat i ! j)) [0..<length h])"
proof (induction input arbitrary: h)
  case Nil
  show ?case by (simp add: map_nth)
next
  case (Cons i rest)
  let ?h' = "map2 (\<lambda>x y. x + y) h (wi ! nat i)"
  from Cons.prems have ok: "row_ok wi i (length h)" by simp
  then have len: "length (wi ! nat i) = length h" by (simp add: row_ok_def)
  then have len': "length ?h' = length h" by simp
  have step: "Vector_addRow h wi i = Inr ?h'"
    using ok by (simp add: Vector_addRow_def)
  have "\<forall>k\<in>set rest. row_ok wi k (length ?h')"
    using Cons.prems len' by simp
  from Cons.IH [OF this] show ?case
    using step len by (simp add: add.assoc)
qed

lemma computeHidden_eq_mean:
  assumes "input \<noteq> []"
    and "\<forall>i\<in>set input. row_ok wi i (length (hidden st))"
  shows "computeHidden wi input st =
    Inr (st\<lparr>hidden := map (\<lambda>j. (\<Sum>i\<leftarrow>input. wi ! nat i ! j) / real (length input))
                        [0..<length (hidden st)]\<rparr>)"
proof -
  have "\<forall>i\<in>set input. row_ok wi i (length (Vector_zero (hidden st)))"
    using assms(2) by (simp add: Vector_zero_def)
  from computeHidden_loop_sum [OF this] show ?thesis
    using assms(1) by (simp add: computeHidden_def Vector_zero_def Vector_mul_def)
qed


text \<open>
  Claim C1. For a non-empty list of input ids, each the id of a row of the input matrix
  of the width of the hidden vector, \<open>computeHidden\<close> returns the state with \<open>hidden\<close>
  replaced by the componentwise arithmetic mean of the referenced rows. The result
  mentions the earlier hidden vector through its length only, so its earlier contents
  do not matter; every other field of the state is unchanged.
\<close>

theorem computeHidden_mean:
  assumes "input \<noteq> []"
    and "\<forall>i\<in>set input. row_ok wi i (length (hidden st))"
  shows "computeHidden wi input st =
    Inr (st\<lparr>hidden := map (\<lambda>j. (\<Sum>i\<leftarrow>input. wi ! nat i ! j) / real (length input))
                        [0..<length (hidden st)]\<rparr>)"
  using assms by (rule computeHidden_eq_mean)

theorem computeHidden_mean_witness:
  "[0, 2, 2] \<noteq> ([] :: int list)
   \<and> list_all (\<lambda>i. row_ok wi_ex i (length (hidden st_ex))) [0, 2, 2]
   \<and> computeHidden wi_ex [0, 2, 2] st_ex = Inr (st_ex\<lparr>hidden := [11 / 3, 22 / 3]\<rparr>)"
proof -
  have ne: "[0, 2, 2] \<noteq> ([] :: int list)" by simp
  have ok: "\<forall>i\<in>set [0, 2, 2]. row_ok wi_ex i (length (hidden st_ex))"
    by (simp add: row_ok_def wi_ex_def st_ex_def)
  show ?thesis
    using ne ok computeHidden_mean [OF ne ok]
    by (simp add: wi_ex_def st_ex_def)
qed

section \<open>update on an empty input\<close>

text \<open>
  Claim C3. For every worker state, target list, target index, learning rate and loss
  strategy, \<open>update\<close> with an empty input list returns normally with the input matrix,
  the output matrix and the whole worker state as they were.
\<close>

theorem update_empty_input:
  "update forward m wi wo [] targets targetIndex lr st = Inr (wi, wo, st)"
  by (simp add: update_def)

section \<open>predict: the argument k\<close>

text \<open>
  Claim C8. For every \<open>k \<le> 0\<close> other than the sentinel \<open>kUnlimitedPredictions\<close>,
  \<open>predict\<close> throws the invalid-argument exception with the heap and the worker state
  as they were passed in (the matrices are not written by \<open>predict\<close> at all). With \<open>k\<close>
  equal to the sentinel, \<open>predict\<close> runs its remaining steps with \<open>k\<close> replaced by the
  row count of the output matrix, which for a non-empty output matrix is the same as
  calling \<open>predict\<close> with that row count.
\<close>

theorem predict_k:
  "(k \<noteq> kUnlimitedPredictions m \<and> k \<le> 0 \<longrightarrow>
      predict lossPredict m wi wo input k threshold heap st = Inl (InvalidArgument, heap, st))
   \<and> predict lossPredict m wi wo input (kUnlimitedPredictions m) threshold heap st
       = predict_run lossPredict wi input (int (length wo)) threshold heap st
   \<and> (0 < length wo \<and> int (length wo) \<noteq> kUnlimitedPredictions m \<longrightarrow>
        predict lossPredict m wi wo input (kUnlimitedPredictions m) threshold heap st
        = predict lossPredict m wi wo input (int (length wo)) threshold heap st)"
  by (simp add: predict_def)

theorem predict_k_witness:
  "(0 \<noteq> kUnlimitedPredictions m_ex \<and> (0::int) \<le> 0)
   \<and> predict lossPredict_ex m_ex wi_ex wo_ex [0, 2] 0 (1 / 2) [] st_ex
       = Inl (InvalidArgument, [], st_ex)
   \<and> (0 < length wo_ex \<and> int (length wo_ex) \<noteq> kUnlimitedPredictions m_ex)
   \<and> predict lossPredict_ex m_ex wi_ex wo_ex [0, 2] (- 1) (1 / 2) [] st_ex
       = Inr ([(1 / 2, 3)], st_ex\<lparr>hidden := [3, 6]\<rparr>)
   \<and> predict lossPredict_ex m_ex wi_ex wo_ex [0, 2] 3 (1 / 2) [] st_ex
       = Inr ([(1 / 2, 3)], st_ex\<lparr>hidden := [3, 6]\<rparr>)"
  using predict_k [of 0 m_ex lossPredict_ex wi_ex wo_ex "[0, 2]" "1 / 2" "[]" st_ex]
  by (simp add: m_ex_def wo_ex_def wi_ex_def st_ex_def predict_def predict_run_def
      lossPredict_ex_def computeHidden_def Vector_zero_def Vector_mul_def Vector_addRow_def
      row_ok_def)


section \<open>sigmoid: clamping and table lookup\<close>

lemma trunc_nonneg: "0 \<le> r \<Longrightarrow> trunc_int64 r = \<lfloor>r\<rfloor>"
  by (simp add: trunc_int64_def)

lemma sigmoid_inside:
  assumes M: "0 < MAX_SIGMOID m" and S: "0 < SIGMOID_TABLE_SIZE m"
    and L: "length (t_sigmoid m) = nat (SIGMOID_TABLE_SIZE m) + 1"
    and lo: "- MAX_SIGMOID m \<le> x" and hi: "x \<le> MAX_SIGMOID m"
  shows "sigmoid m x = Inr (t_sigmoid m !
           nat \<lfloor>(x + MAX_SIGMOID m) * real_of_int (SIGMOID_TABLE_SIZE m) / MAX_SIGMOID m / 2\<rfloor>)"
    and "nat \<lfloor>(x + MAX_SIGMOID m) * real_of_int (SIGMOID_TABLE_SIZE m) / MAX_SIGMOID m / 2\<rfloor>
           < length (t_sigmoid m)"
proof -
  let ?M = "MAX_SIGMOID m" and ?S = "real_of_int (SIGMOID_TABLE_SIZE m)"
  let ?p = "(x + ?M) * ?S / ?M / 2"
  have p0: "0 \<le> ?p" using M S lo by simp
  have "(x + ?M) * ?S \<le> (2 * ?M) * ?S"
    using hi S by (intro mult_right_mono) simp_all
  then have "?p \<le> ?S" using M by (simp add: field_simps)
  then have fl: "\<lfloor>?p\<rfloor> \<le> SIGMOID_TABLE_SIZE m" by (simp add: floor_le_iff)
  have f0: "0 \<le> \<lfloor>?p\<rfloor>" using p0 by simp
  from fl f0 L S show 2: "nat \<lfloor>?p\<rfloor> < length (t_sigmoid m)" by simp
  have "\<lfloor>?p\<rfloor> < int (length (t_sigmoid m))" using fl L S by simp
  with f0 p0 M lo hi show "sigmoid m x = Inr (t_sigmoid m ! nat \<lfloor>?p\<rfloor>)"
    by (simp add: sigmoid_def trunc_nonneg Let_def)
qed


lemma sigmoid_range:
  assumes M: "0 < MAX_SIGMOID m" and S: "0 < SIGMOID_TABLE_SIZE m"
    and L: "length (t_sigmoid m) = nat (SIGMOID_TABLE_SIZE m) + 1"
    and R: "\<forall>v\<in>set (t_sigmoid m). 0 \<le> v \<and> v \<le> 1"
  shows "\<exists>a. sigmoid m x = Inr a \<and> 0 \<le> a \<and> a \<le> 1"
proof -
  consider "x < - MAX_SIGMOID m" | "x > MAX_SIGMOID m"
    | "- MAX_SIGMOID m \<le> x" "x \<le> MAX_SIGMOID m" by linarith
  then show ?thesis
  proof cases
    case 1
    then show ?thesis by (simp add: sigmoid_def)
  next
    case 2
    with M show ?thesis by (simp add: sigmoid_def)
  next
    case 3
    from sigmoid_inside [OF M S L 3] R show ?thesis
      using nth_mem by blast
  qed
qed

lemma sigmoid_mono:
  assumes M: "0 < MAX_SIGMOID m" and S: "0 < SIGMOID_TABLE_SIZE m"
    and L: "length (t_sigmoid m) = nat (SIGMOID_TABLE_SIZE m) + 1"
    and R: "\<forall>v\<in>set (t_sigmoid m). 0 \<le> v \<and> v \<le> 1"
    and T: "sorted (t_sigmoid m)"
    and xy: "x \<le> y"
  shows "\<exists>a b. sigmoid m x = Inr a \<and> sigmoid m y = Inr b \<and> a \<le> b"
proof -
  obtain a where a: "sigmoid m x = Inr a" "0 \<le> a" "a \<le> 1"
    using sigmoid_range [OF M S L R] by blast
  obtain b where b: "sigmoid m y = Inr b" "0 \<le> b" "b \<le> 1"
    using sigmoid_range [OF M S L R] by blast
  have "a \<le> b"
  proof (cases "x < - MAX_SIGMOID m")
    case True
    then have "a = 0" using a(1) by (simp add: sigmoid_def)
    with b show ?thesis by simp
  next
    case xlo: False
    show ?thesis
    proof (cases "y > MAX_SIGMOID m")
      case True
      then have "b = 1" using b(1) xlo xy M by (simp add: sigmoid_def)
      with a show ?thesis by simp
    next
      case yhi: False
      let ?M = "MAX_SIGMOID m" and ?S = "real_of_int (SIGMOID_TABLE_SIZE m)"
      let ?p = "\<lambda>z. (z + ?M) * ?S / ?M / 2"
      have x_in: "- ?M \<le> x" "x \<le> ?M" and y_in: "- ?M \<le> y" "y \<le> ?M"
        using xlo yhi xy by simp_all
      have "?p x \<le> ?p y"
        using xy M S by (simp add: divide_right_mono mult_right_mono)
      then have "\<lfloor>?p x\<rfloor> \<le> \<lfloor>?p y\<rfloor>" by (rule floor_mono)
      then have idx: "nat \<lfloor>?p x\<rfloor> \<le> nat \<lfloor>?p y\<rfloor>" by simp
      have "t_sigmoid m ! nat \<lfloor>?p x\<rfloor> \<le> t_sigmoid m ! nat \<lfloor>?p y\<rfloor>"
        using T idx sigmoid_inside(2) [OF M S L y_in] by (rule sorted_nth_mono)
      then show ?thesis
        using a(1) b(1) sigmoid_inside(1) [OF M S L x_in] sigmoid_inside(1) [OF M S L y_in]
        by simp
    qed
  qed
  with a(1) b(1) show ?thesis by blast
qed

lemma sigmoid_zero:
  assumes M: "0 < MAX_SIGMOID m" and S: "0 < SIGMOID_TABLE_SIZE m"
    and L: "length (t_sigmoid m) = nat (SIGMOID_TABLE_SIZE m) + 1"
  shows "sigmoid m 0 = Inr (t_sigmoid m ! nat (SIGMOID_TABLE_SIZE m div 2))"
proof -
  have "(0 + MAX_SIGMOID m) * real_of_int (SIGMOID_TABLE_SIZE m) / MAX_SIGMOID m / 2
        = real_of_int (SIGMOID_TABLE_SIZE m) / 2"
    using M by simp
  moreover have "\<lfloor>real_of_int (SIGMOID_TABLE_SIZE m) / 2\<rfloor> = SIGMOID_TABLE_SIZE m div 2"
    by (metis floor_divide_of_int_eq of_int_numeral)
  ultimately show ?thesis
    using sigmoid_inside(1) [OF M S L, of 0] M by simp
qed

lemma initSigmoid_length: "length (initSigmoid mx sz) = nat sz + 1"
  by (simp add: initSigmoid_def)

lemma initSigmoid_range: "\<forall>v\<in>set (initSigmoid mx sz). 0 \<le> v \<and> v \<le> 1"
proof
  fix v assume "v \<in> set (initSigmoid mx sz)"
  then obtain t :: real where v: "v = 1 / (1 + exp t)"
    by (auto simp add: initSigmoid_def)
  have p: "0 < 1 + exp t" by (simp add: add_pos_pos)
  have lo: "0 \<le> 1 / (1 + exp t)" by (rule divide_nonneg_pos) (simp_all add: p)
  have hi: "1 / (1 + exp t) \<le> 1" by (subst divide_le_eq_1_pos) (simp_all add: p)
  from lo hi show "0 \<le> v \<and> v \<le> 1" unfolding v by (rule conjI)
qed

lemma initSigmoid_sorted:
  assumes "0 < mx" and "0 < sz"
  shows "sorted (initSigmoid mx sz)"
proof -
  let ?x = "\<lambda>i::nat. real i * 2 * mx / real_of_int sz - mx"
  have "1 / (1 + exp (- ?x i)) \<le> 1 / (1 + exp (- ?x j))" if "i \<le> j" for i j :: nat
  proof -
    have "real i * 2 * mx \<le> real j * 2 * mx"
      using that assms(1) by (simp add: mult_right_mono)
    then have "?x i \<le> ?x j" using assms(2) by (simp add: divide_right_mono)
    then have "exp (- ?x j) \<le> exp (- ?x i)" by simp
    then have "1 + exp (- ?x j) \<le> 1 + exp (- ?x i)" by simp
    moreover have "0 < 1 + exp (- ?x j)" by (simp add: add_pos_pos)
    ultimately show ?thesis by (simp add: frac_le)
  qed
  then show ?thesis
    by (simp add: initSigmoid_def sorted_iff_nth_mono del: upt_Suc)
qed

lemma initSigmoid_middle:
  assumes "0 < mx" and "0 < sz" and "even sz"
  shows "initSigmoid mx sz ! nat (sz div 2) = 1 / 2"
proof -
  have idx: "nat (sz div 2) < nat sz + 1" using assms(2) by simp
  from assms(3) obtain k where k: "sz = 2 * k" by (auto elim: evenE)
  with assms(2) have k0: "0 < k" by simp
  have "real (nat (sz div 2)) * 2 * mx / real_of_int sz - mx = 0"
    using k k0 assms(1) by (simp add: field_simps)
  with idx show ?thesis
    by (simp add: initSigmoid_def del: upt_Suc)
qed


text \<open>
  Claim C7, as amended. \<open>sigmoid x\<close> is exactly 0 for \<open>x < - MAX_SIGMOID\<close> and exactly 1
  for \<open>x > MAX_SIGMOID\<close>. For a positive bound and a table of \<open>SIGMOID_TABLE_SIZE + 1\<close>
  entries, inside the domain it is the single table entry at the index
  \<open>(x + MAX_SIGMOID) * SIGMOID_TABLE_SIZE / MAX_SIGMOID / 2\<close> with its fraction dropped
  (no interpolation between entries), and \<open>sigmoid 0\<close> is the entry at index
  \<open>SIGMOID_TABLE_SIZE div 2\<close>. If the table is non-decreasing with entries in \<open>[0, 1]\<close>,
  \<open>sigmoid\<close> is monotonically non-decreasing. For the table of the samples of the
  logistic function, \<open>sigmoid\<close> is monotonically non-decreasing and, the table size
  being even, \<open>sigmoid 0\<close> is exactly \<open>1/2\<close>.
\<close>

theorem sigmoid_table_step:
  "(x < - MAX_SIGMOID m \<longrightarrow> sigmoid m x = Inr 0)
   \<and> (0 \<le> MAX_SIGMOID m \<and> x > MAX_SIGMOID m \<longrightarrow> sigmoid m x = Inr 1)
   \<and> (0 < MAX_SIGMOID m \<and> 0 < SIGMOID_TABLE_SIZE m
        \<and> length (t_sigmoid m) = nat (SIGMOID_TABLE_SIZE m) + 1 \<longrightarrow>
        (- MAX_SIGMOID m \<le> x \<and> x \<le> MAX_SIGMOID m \<longrightarrow>
           sigmoid m x = Inr (t_sigmoid m ! nat (trunc_int64
             ((x + MAX_SIGMOID m) * real_of_int (SIGMOID_TABLE_SIZE m) / MAX_SIGMOID m / 2))))
        \<and> sigmoid m 0 = Inr (t_sigmoid m ! nat (SIGMOID_TABLE_SIZE m div 2))
        \<and> (sorted (t_sigmoid m) \<and> (\<forall>v\<in>set (t_sigmoid m). 0 \<le> v \<and> v \<le> 1) \<and> x \<le> y \<longrightarrow>
             (\<exists>a b. sigmoid m x = Inr a \<and> sigmoid m y = Inr b \<and> a \<le> b)))
   \<and> (0 < MAX_SIGMOID m \<and> 0 < SIGMOID_TABLE_SIZE m
        \<and> t_sigmoid m = initSigmoid (MAX_SIGMOID m) (SIGMOID_TABLE_SIZE m) \<longrightarrow>
        (x \<le> y \<longrightarrow> (\<exists>a b. sigmoid m x = Inr a \<and> sigmoid m y = Inr b \<and> a \<le> b))
        \<and> (even (SIGMOID_TABLE_SIZE m) \<longrightarrow> sigmoid m 0 = Inr (1 / 2)))"
proof (intro conjI impI)
  assume "x < - MAX_SIGMOID m"
  then show "sigmoid m x = Inr 0" by (simp add: sigmoid_def)
next
  assume "0 \<le> MAX_SIGMOID m \<and> x > MAX_SIGMOID m"
  then show "sigmoid m x = Inr 1" by (simp add: sigmoid_def)
next
  assume A: "0 < MAX_SIGMOID m \<and> 0 < SIGMOID_TABLE_SIZE m
        \<and> length (t_sigmoid m) = nat (SIGMOID_TABLE_SIZE m) + 1"
    and B: "- MAX_SIGMOID m \<le> x \<and> x \<le> MAX_SIGMOID m"
  then have "0 \<le> (x + MAX_SIGMOID m) * real_of_int (SIGMOID_TABLE_SIZE m) / MAX_SIGMOID m / 2"
    by simp
  then show "sigmoid m x = Inr (t_sigmoid m ! nat (trunc_int64
             ((x + MAX_SIGMOID m) * real_of_int (SIGMOID_TABLE_SIZE m) / MAX_SIGMOID m / 2)))"
    using sigmoid_inside(1) [of m x] A B by (simp add: trunc_nonneg)
next
  assume "0 < MAX_SIGMOID m \<and> 0 < SIGMOID_TABLE_SIZE m
        \<and> length (t_sigmoid m) = nat (SIGMOID_TABLE_SIZE m) + 1"
  then show "sigmoid m 0 = Inr (t_sigmoid m ! nat (SIGMOID_TABLE_SIZE m div 2))"
    using sigmoid_zero by blast
next
  assume "0 < MAX_SIGMOID m \<and> 0 < SIGMOID_TABLE_SIZE m
        \<and> length (t_sigmoid m) = nat (SIGMOID_TABLE_SIZE m) + 1"
    and "sorted (t_sigmoid m) \<and> (\<forall>v\<in>set (t_sigmoid m). 0 \<le> v \<and> v \<le> 1) \<and> x \<le> y"
  then show "\<exists>a b. sigmoid m x = Inr a \<and> sigmoid m y = Inr b \<and> a \<le> b"
    using sigmoid_mono by blast
next
  assume T: "0 < MAX_SIGMOID m \<and> 0 < SIGMOID_TABLE_SIZE m
        \<and> t_sigmoid m = initSigmoid (MAX_SIGMOID m) (SIGMOID_TABLE_SIZE m)"
    and xy: "x \<le> y"
  then have "length (t_sigmoid m) = nat (SIGMOID_TABLE_SIZE m) + 1"
    "\<forall>v\<in>set (t_sigmoid m). 0 \<le> v \<and> v \<le> 1" "sorted (t_sigmoid m)"
    using initSigmoid_range [of "MAX_SIGMOID m" "SIGMOID_TABLE_SIZE m"]
    by (simp_all add: initSigmoid_length initSigmoid_sorted)
  with T xy show "\<exists>a b. sigmoid m x = Inr a \<and> sigmoid m y = Inr b \<and> a \<le> b"
    using sigmoid_mono [of m x y] by blast
next
  assume T: "0 < MAX_SIGMOID m \<and> 0 < SIGMOID_TABLE_SIZE m
        \<and> t_sigmoid m = initSigmoid (MAX_SIGMOID m) (SIGMOID_TABLE_SIZE m)"
    and ev: "even (SIGMOID_TABLE_SIZE m)"
  then have L: "length (t_sigmoid m) = nat (SIGMOID_TABLE_SIZE m) + 1"
    by (simp add: initSigmoid_length)
  from T ev have "t_sigmoid m ! nat (SIGMOID_TABLE_SIZE m div 2) = 1 / 2"
    by (simp add: initSigmoid_middle)
  with T L show "sigmoid m 0 = Inr (1 / 2)"
    using sigmoid_zero [of m] by simp
qed

theorem sigmoid_table_step_witness:
  "(- 3 < - MAX_SIGMOID m_ex \<and> sigmoid m_ex (- 3) = Inr 0)
   \<and> (0 \<le> MAX_SIGMOID m_ex \<and> 3 > MAX_SIGMOID m_ex \<and> sigmoid m_ex 3 = Inr 1)
   \<and> (0 < MAX_SIGMOID m_ex \<and> 0 < SIGMOID_TABLE_SIZE m_ex
        \<and> length (t_sigmoid m_ex) = nat (SIGMOID_TABLE_SIZE m_ex) + 1)
   \<and> (- MAX_SIGMOID m_ex \<le> 1 / 2 \<and> 1 / 2 \<le> MAX_SIGMOID m_ex
        \<and> sigmoid m_ex (1 / 2) = Inr (1 / 2))
   \<and> sigmoid m_ex 0 = Inr (1 / 2)
   \<and> (sorted (t_sigmoid m_ex) \<and> list_all (\<lambda>v. 0 \<le> v \<and> v \<le> 1) (t_sigmoid m_ex)
        \<and> (1 / 2 :: real) \<le> 3 / 2)
   \<and> (\<exists>a b. sigmoid m_ex (1 / 2) = Inr a \<and> sigmoid m_ex (3 / 2) = Inr b \<and> a \<le> b)
   \<and> (0 < MAX_SIGMOID m_sig \<and> 0 < SIGMOID_TABLE_SIZE m_sig
        \<and> t_sigmoid m_sig = initSigmoid (MAX_SIGMOID m_sig) (SIGMOID_TABLE_SIZE m_sig)
        \<and> even (SIGMOID_TABLE_SIZE m_sig))
   \<and> sigmoid m_sig 0 = Inr (1 / 2)
   \<and> (\<exists>a b. sigmoid m_sig (1 / 2) = Inr a \<and> sigmoid m_sig (3 / 2) = Inr b \<and> a \<le> b)"
proof -
  have h: "0 < MAX_SIGMOID m_ex \<and> 0 < SIGMOID_TABLE_SIZE m_ex
        \<and> length (t_sigmoid m_ex) = nat (SIGMOID_TABLE_SIZE m_ex) + 1"
    "sorted (t_sigmoid m_ex) \<and> (\<forall>v\<in>set (t_sigmoid m_ex). 0 \<le> v \<and> v \<le> 1)
        \<and> (1 / 2 :: real) \<le> 3 / 2"
    "- 3 < - MAX_SIGMOID m_ex" "3 > MAX_SIGMOID m_ex"
    "- MAX_SIGMOID m_ex \<le> 1 / 2 \<and> 1 / 2 \<le> MAX_SIGMOID m_ex"
    "nat (trunc_int64 ((1 / 2 + MAX_SIGMOID m_ex) * real_of_int (SIGMOID_TABLE_SIZE m_ex)
           / MAX_SIGMOID m_ex / 2)) = 2"
    "nat (SIGMOID_TABLE_SIZE m_ex div 2) = 2"
    "t_sigmoid m_ex ! 2 = 1 / 2"
    by (simp_all add: m_ex_def trunc_int64_def)
  have g: "0 < MAX_SIGMOID m_sig \<and> 0 < SIGMOID_TABLE_SIZE m_sig
        \<and> t_sigmoid m_sig = initSigmoid (MAX_SIGMOID m_sig) (SIGMOID_TABLE_SIZE m_sig)"
    "even (SIGMOID_TABLE_SIZE m_sig)"
    by (simp_all add: m_sig_def m_ex_def)
  note T1 = sigmoid_table_step [of "- 3" m_ex 0]
  note T2 = sigmoid_table_step [of 3 m_ex 3]
  note T3 = sigmoid_table_step [of "1 / 2" m_ex "3 / 2"]
  note T4 = sigmoid_table_step [of "1 / 2" m_sig "3 / 2"]
  have c1: "sigmoid m_ex (- 3) = Inr 0" using h(3) T1 by blast
  have c2: "sigmoid m_ex 3 = Inr 1" using h(1,4) T2 by simp
  have c3: "sigmoid m_ex (1 / 2) = Inr (1 / 2)" using h(1,5) T3 unfolding h(6,8) by blast
  have c4: "sigmoid m_ex 0 = Inr (1 / 2)" using h(1) T3 unfolding h(7,8) by blast
  have c5: "\<exists>a b. sigmoid m_ex (1 / 2) = Inr a \<and> sigmoid m_ex (3 / 2) = Inr b \<and> a \<le> b"
    using h(1,2) T3 by blast
  have c6: "sigmoid m_sig 0 = Inr (1 / 2)" using g T4 by blast
  have c7: "\<exists>a b. sigmoid m_sig (1 / 2) = Inr a \<and> sigmoid m_sig (3 / 2) = Inr b \<and> a \<le> b"
    using g(1) h(2) T4 by blast
  have la: "list_all (\<lambda>v. 0 \<le> v \<and> v \<le> 1) (t_sigmoid m_ex)"
    using h(2) by (simp add: list_all_iff)
  from h(1,2,3,4,5) g c1 c2 c3 c4 c5 c6 c7 la show ?thesis by simp
qed

text \<open>
  The claim C7 as stated fails: at \<open>x = 1/2\<close>, between the samples for 0 and 1, the source
  returns the table entry \<open>1/2\<close>, where linear interpolation between the neighbouring
  entries \<open>1/2\<close> and \<open>3/4\<close> gives \<open>5/8\<close>.
\<close>

theorem sigmoid_interpolation_counterexample:
  "sigmoid m_ex (1 / 2) = Inr (1 / 2) \<and> sigmoid_interpolated m_ex (1 / 2) = Inr (5 / 8)
   \<and> sigmoid m_ex (1 / 2) \<noteq> sigmoid_interpolated m_ex (1 / 2)"
  by (simp add: sigmoid_def sigmoid_interpolated_def m_ex_def trunc_int64_def Let_def)

section \<open>Evaluation of the small configuration\<close>

lemma getNegative_draw_ex0: "getNegative_draw [0, 1, 1, 2] 2 0 = Some (Inr (0, 1))"
  by (subst getNegative_draw.simps) simp

lemma getNegative_draw_ex1: "getNegative_draw [0, 1, 1, 2] 2 (Suc 0) = Some (Inr (1, 2))"
  by (subst getNegative_draw.simps) simp

lemma getNegative_draw_ex2: "getNegative_draw [0, 1, 1, 2] 2 2 = Some (Inr (1, 3))"
  by (subst getNegative_draw.simps) simp

lemmas eval_defs = update_def computeHidden_def forward_ns_def negativeSampling_def
  binaryLogistic_def sigmoid_def trunc_int64_def Matrix_dotRow_def dot_def
  Vector_addRow_scaled_def Matrix_addRow_def Matrix_addVectorToRow_def row_ok_def
  Vector_zero_def Vector_mul_def Vector_addRow_def incrementNExamples_def getNegative_def
  Let_def m_ex_def wi_ex_def wo_ex_def st_ex_def


section \<open>The steps of update\<close>

lemma update_Inr_steps:
  assumes "input \<noteq> []"
    and "update forward m wi wo input targets targetIndex lr st = Inr (wi', wo', st')"
  shows "\<exists>st1 lossValue st3.
           computeHidden wi input st = Inr st1
         \<and> forward wo targets targetIndex (st1\<lparr>grad := Vector_zero (grad st1)\<rparr>) lr True
             = Inr (lossValue, wo', st3)
         \<and> st' = (if normalizeGradient m
                   then (incrementNExamples st3 lossValue)
                          \<lparr>grad := Vector_mul (grad (incrementNExamples st3 lossValue))
                                     (1 / real (length input))\<rparr>
                   else incrementNExamples st3 lossValue)
         \<and> update_scatter wi (grad st') input = Inr wi'"
proof (cases "normalizeGradient m")
  case True
  with assms show ?thesis
    by (auto simp add: update_def bind_res_eq_Inr Let_def)
next
  case False
  with assms show ?thesis
    by (auto simp add: update_def bind_res_eq_Inr Let_def)
qed

lemma binaryLogistic_eq:
  assumes "row_ok wo t (length (hidden st))"
    and "length (grad st) = length (hidden st)"
    and "sigmoid m (dot (wo ! nat t) (hidden st)) = Inr s"
  shows "binaryLogistic m wo st t l lr =
    Inr (if l then - log_fn m s else - log_fn m (1 - s),
         wo[nat t := map2 (\<lambda>x y. x + lr * (of_bool l - s) * y) (wo ! nat t) (hidden st)],
         st\<lparr>grad := map2 (\<lambda>x y. x + lr * (of_bool l - s) * y) (grad st) (wo ! nat t)\<rparr>)"
  using assms
  by (simp add: binaryLogistic_def Matrix_dotRow_def Vector_addRow_scaled_def
      Matrix_addRow_def row_ok_def Let_def)

lemma computeHidden_grad:
  "computeHidden wi input (st\<lparr>grad := g\<rparr>)
     = bind_res (computeHidden wi input st) (\<lambda>s. Inr (s\<lparr>grad := g\<rparr>))"
  by (cases "computeHidden_loop wi input (Vector_zero (hidden st))")
     (simp_all add: computeHidden_def)

lemma negativeSampling_grad_irrelevant:
  assumes "length g1 = length g2"
  shows "negativeSampling m wo (st\<lparr>grad := g1\<rparr>) target lr
       = negativeSampling m wo (st\<lparr>grad := g2\<rparr>) target lr"
  using assms by (simp add: negativeSampling_def Vector_zero_def)

lemma computeHidden_hidden_irrelevant:
  assumes "length h1 = length h2"
  shows "computeHidden wi input (st\<lparr>hidden := h1\<rparr>) = computeHidden wi input (st\<lparr>hidden := h2\<rparr>)"
  using assms
  by (cases "computeHidden_loop wi input (replicate (length h2) 0)")
     (simp_all add: computeHidden_def Vector_zero_def)

lemma update_buffers_irrelevant:
  assumes "input \<noteq> []" and "length g1 = length g2" and "length h1 = length h2"
  shows "update forward m wi wo input targets targetIndex lr (st\<lparr>hidden := h1, grad := g1\<rparr>)
       = update forward m wi wo input targets targetIndex lr (st\<lparr>hidden := h2, grad := g2\<rparr>)"
proof -
  have "computeHidden wi input (st\<lparr>hidden := h1\<rparr>) = computeHidden wi input (st\<lparr>hidden := h2\<rparr>)"
    using assms(3) by (rule computeHidden_hidden_irrelevant)
  then show ?thesis
    using assms(1,2)
    by (cases "computeHidden wi input (st\<lparr>hidden := h2\<rparr>)")
       (simp_all add: update_def computeHidden_grad Vector_zero_def)
qed


section \<open>The binary-logistic step and its place in update\<close>

text \<open>
  Claim C2. On an output row \<open>t\<close> of the width of the hidden vector, with
  \<open>s = sigmoid (dot (wo[t]) hidden)\<close> and \<open>alpha = lr * (l - s)\<close>, \<open>binaryLogistic\<close>
  adds \<open>alpha\<close> times the output row (as it is before the step) into the gradient
  buffer, adds \<open>alpha\<close> times the hidden vector into output row \<open>t\<close>, and returns
  \<open>- log s\<close> for a true label and \<open>- log (1 - s)\<close> otherwise. In \<open>update\<close> the loss
  strategy runs on the hidden vector computed from the input matrix as it is on entry and
  yields the output matrix that \<open>update\<close> returns; the scatter into the input matrix
  comes after it, with the gradient the strategy left.
\<close>

theorem binaryLogistic_step_before_scatter:
  "(row_ok wo t (length (hidden st)) \<and> length (grad st) = length (hidden st)
      \<and> sigmoid m (dot (wo ! nat t) (hidden st)) = Inr s \<longrightarrow>
    binaryLogistic m wo st t l lr =
      Inr (if l then - log_fn m s else - log_fn m (1 - s),
           wo[nat t := map2 (\<lambda>x y. x + lr * (of_bool l - s) * y) (wo ! nat t) (hidden st)],
           st\<lparr>grad := map2 (\<lambda>x y. x + lr * (of_bool l - s) * y) (grad st) (wo ! nat t)\<rparr>))
   \<and> (input \<noteq> []
        \<and> update forward m wi wo input targets targetIndex lr st0 = Inr (wi', wo', st') \<longrightarrow>
       (\<exists>st1 lossValue st3.
           computeHidden wi input st0 = Inr st1
         \<and> forward wo targets targetIndex (st1\<lparr>grad := Vector_zero (grad st1)\<rparr>) lr True
             = Inr (lossValue, wo', st3)
         \<and> update_scatter wi (grad st') input = Inr wi'))"
proof (intro conjI impI)
  assume "row_ok wo t (length (hidden st)) \<and> length (grad st) = length (hidden st)
      \<and> sigmoid m (dot (wo ! nat t) (hidden st)) = Inr s"
  then show "binaryLogistic m wo st t l lr =
      Inr (if l then - log_fn m s else - log_fn m (1 - s),
           wo[nat t := map2 (\<lambda>x y. x + lr * (of_bool l - s) * y) (wo ! nat t) (hidden st)],
           st\<lparr>grad := map2 (\<lambda>x y. x + lr * (of_bool l - s) * y) (grad st) (wo ! nat t)\<rparr>)"
    using binaryLogistic_eq by blast
next
  assume "input \<noteq> []
        \<and> update forward m wi wo input targets targetIndex lr st0 = Inr (wi', wo', st')"
  then show "\<exists>st1 lossValue st3.
           computeHidden wi input st0 = Inr st1
         \<and> forward wo targets targetIndex (st1\<lparr>grad := Vector_zero (grad st1)\<rparr>) lr True
             = Inr (lossValue, wo', st3)
         \<and> update_scatter wi (grad st') input = Inr wi'"
    using update_Inr_steps [of input forward m wi wo targets targetIndex lr st0 wi' wo' st']
    by blast
qed


theorem binaryLogistic_step_before_scatter_witness:
  "(row_ok wo_ex 2 (length (hidden st_ex2)) \<and> length (grad st_ex2) = length (hidden st_ex2)
      \<and> sigmoid m_ex (dot (wo_ex ! nat 2) (hidden st_ex2)) = Inr (3 / 4))
   \<and> binaryLogistic m_ex wo_ex st_ex2 2 True (1 / 2)
       = Inr (- ln (3 / 4), [[1 / 4, 0], [0, 1 / 8], [1 / 2, 7 / 8]],
              st_ex2\<lparr>grad := [1 / 64, 1 / 64]\<rparr>)
   \<and> ([0, 2] \<noteq> ([] :: int list)
        \<and> update (forward_ns m_ex) m_ex wi_ex wo_ex [0, 2] [2] 0 (1 / 2) st_ex
            = Inr ([[125 / 128, 255 / 128], [3, 4], [637 / 128, 1279 / 128]],
                   [[- (1 / 2), - (3 / 2)], [- (3 / 4), - (11 / 8)], [1 / 2, 7 / 8]],
                   st_ex\<lparr>lossValue := - (2 * ln (1 / 2)) - ln (3 / 4), nexamples := 1,
                         hidden := [3, 6], grad := [- (3 / 128), - (1 / 128)], rng := 2\<rparr>))
   \<and> (\<exists>st1 lossValue st3.
           computeHidden wi_ex [0, 2] st_ex = Inr st1
         \<and> forward_ns m_ex wo_ex [2] 0 (st1\<lparr>grad := Vector_zero (grad st1)\<rparr>) (1 / 2) True
             = Inr (lossValue, [[- (1 / 2), - (3 / 2)], [- (3 / 4), - (11 / 8)], [1 / 2, 7 / 8]], st3)
         \<and> update_scatter wi_ex [- (3 / 128), - (1 / 128)] [0, 2]
             = Inr [[125 / 128, 255 / 128], [3, 4], [637 / 128, 1279 / 128]])"
proof -
  let ?wi' = "[[125 / 128, 255 / 128], [3, 4], [637 / 128, 1279 / 128]] :: matrix"
  let ?wo' = "[[- (1 / 2), - (3 / 2)], [- (3 / 4), - (11 / 8)], [1 / 2, 7 / 8]] :: matrix"
  let ?st' = "st_ex\<lparr>lossValue := - (2 * ln (1 / 2)) - ln (3 / 4), nexamples := 1,
                         hidden := [3, 6], grad := [- (3 / 128), - (1 / 128)], rng := 2\<rparr>"
  have h1: "row_ok wo_ex 2 (length (hidden st_ex2)) \<and> length (grad st_ex2) = length (hidden st_ex2)
      \<and> sigmoid m_ex (dot (wo_ex ! nat 2) (hidden st_ex2)) = Inr (3 / 4)"
    by (simp add: eval_defs st_ex2_def)
  have h2: "[0, 2] \<noteq> ([] :: int list)
        \<and> update (forward_ns m_ex) m_ex wi_ex wo_ex [0, 2] [2] 0 (1 / 2) st_ex
            = Inr (?wi', ?wo', ?st')"
    by (simp add: eval_defs getNegative_draw_ex0 getNegative_draw_ex1 upto.simps)
  have h3: "wo_ex[nat 2 := map2 (\<lambda>x y. x + 1 / 2 * (of_bool True - 3 / 4) * y)
                               (wo_ex ! nat 2) (hidden st_ex2)]
            = [[1 / 4, 0], [0, 1 / 8], [1 / 2, 7 / 8]]"
    "map2 (\<lambda>x y. x + 1 / 2 * (of_bool True - 3 / 4) * y) (grad st_ex2) (wo_ex ! nat 2)
       = [1 / 64, 1 / 64]"
    "log_fn m_ex = ln"
    "grad ?st' = [- (3 / 128), - (1 / 128)]"
    by (simp_all add: wo_ex_def st_ex2_def st_ex_def m_ex_def)
  from binaryLogistic_step_before_scatter
    [of wo_ex 2 st_ex2 m_ex "3 / 4" True "1 / 2" "[0, 2]" "forward_ns m_ex" wi_ex "[2]" 0 st_ex
        ?wi' ?wo' ?st']
    h1 h2
  show ?thesis
    unfolding h3 by (simp del: One_nat_def)
qed

section \<open>The gradient accumulator carries nothing over\<close>

lemma computeHidden_loop_rows:
  "computeHidden_loop wi input h = Inr h' \<Longrightarrow> \<forall>i\<in>set input. row_ok wi i (length h)"
proof (induction input arbitrary: h)
  case Nil
  show ?case by simp
next
  case (Cons i rest)
  from Cons.prems obtain h1 where h1: "Vector_addRow h wi i = Inr h1"
    and rest: "computeHidden_loop wi rest h1 = Inr h'"
    by (auto simp add: bind_res_eq_Inr)
  from h1 have ok: "row_ok wi i (length h)" and "h1 = map2 (\<lambda>x y. x + y) h (wi ! nat i)"
    by (auto simp add: Vector_addRow_def split: if_splits)
  then have "length h1 = length h" by (simp add: row_ok_def)
  with Cons.IH [OF rest] ok show ?case by simp
qed

lemma computeHidden_rows:
  "computeHidden wi input st = Inr st1 \<Longrightarrow> \<forall>i\<in>set input. row_ok wi i (length (hidden st))"
  using computeHidden_loop_rows [of wi input "Vector_zero (hidden st)"]
  by (auto simp add: computeHidden_def bind_res_eq_Inr Vector_zero_def)

lemma update_Inr_mean:
  assumes "input \<noteq> []"
    and "update forward m wi wo input targets targetIndex lr st = Inr (wi', wo', st')"
  shows "\<exists>lossValue st3.
           forward wo targets targetIndex
             (st\<lparr>hidden := map (\<lambda>j. (\<Sum>i\<leftarrow>input. wi ! nat i ! j) / real (length input))
                                [0..<length (hidden st)],
                 grad := replicate (length (grad st)) 0\<rparr>) lr True
             = Inr (lossValue, wo', st3)
         \<and> grad st' = (if normalizeGradient m
                        then Vector_mul (grad st3) (1 / real (length input)) else grad st3)
         \<and> update_scatter wi (grad st') input = Inr wi'"
proof -
  from update_Inr_steps [OF assms] obtain st1 lossValue st3 where
    c: "computeHidden wi input st = Inr st1"
    and f: "forward wo targets targetIndex (st1\<lparr>grad := Vector_zero (grad st1)\<rparr>) lr True
             = Inr (lossValue, wo', st3)"
    and s: "st' = (if normalizeGradient m
                   then (incrementNExamples st3 lossValue)
                          \<lparr>grad := Vector_mul (grad (incrementNExamples st3 lossValue))
                                     (1 / real (length input))\<rparr>
                   else incrementNExamples st3 lossValue)"
    and u: "update_scatter wi (grad st') input = Inr wi'"
    by blast
  from computeHidden_eq_mean [OF assms(1) computeHidden_rows [OF c]] c
  have st1: "st1 = st\<lparr>hidden := map (\<lambda>j. (\<Sum>i\<leftarrow>input. wi ! nat i ! j) / real (length input))
                                [0..<length (hidden st)]\<rparr>" by simp
  have st2: "st1\<lparr>grad := Vector_zero (grad st1)\<rparr>
               = st\<lparr>hidden := map (\<lambda>j. (\<Sum>i\<leftarrow>input. wi ! nat i ! j) / real (length input))
                                [0..<length (hidden st)],
                     grad := replicate (length (grad st)) 0\<rparr>"
    by (simp add: st1 Vector_zero_def)
  have g: "grad st' = (if normalizeGradient m
                        then Vector_mul (grad st3) (1 / real (length input)) else grad st3)"
    using s by (simp add: incrementNExamples_def)
  from f st2 g u show ?thesis by auto
qed

text \<open>
  Claim C9, as amended. In \<open>update\<close> the loss strategy is entered with a gradient
  accumulator of zeros and with the hidden vector of the current call (the mean of the
  input rows), and the gradient scattered into the input matrix is the one the strategy
  leaves, normalized if so configured. It is thus determined by the current call's
  hidden vector, targets and learning rate together with the output matrix and the rest
  of the worker state that the strategy reads, and never by the earlier contents of the
  gradient and hidden buffers: two calls of \<open>update\<close> that differ only in these give
  the same matrices and the same state. \<open>negativeSampling\<close> zeroes the accumulator
  itself and is equally independent of its earlier contents.
\<close>

theorem update_gradient_zeroed:
  "(input \<noteq> []
      \<and> update forward m wi wo input targets targetIndex lr st = Inr (wi', wo', st') \<longrightarrow>
     (\<exists>lossValue st3.
         forward wo targets targetIndex
           (st\<lparr>hidden := map (\<lambda>j. (\<Sum>i\<leftarrow>input. wi ! nat i ! j) / real (length input))
                              [0..<length (hidden st)],
               grad := replicate (length (grad st)) 0\<rparr>) lr True
           = Inr (lossValue, wo', st3)
       \<and> grad st' = (if normalizeGradient m
                      then Vector_mul (grad st3) (1 / real (length input)) else grad st3)
       \<and> update_scatter wi (grad st') input = Inr wi'))
   \<and> (input \<noteq> [] \<and> length g1 = length g2 \<and> length h1 = length h2 \<longrightarrow>
        update forward m wi wo input targets targetIndex lr (st\<lparr>hidden := h1, grad := g1\<rparr>)
        = update forward m wi wo input targets targetIndex lr (st\<lparr>hidden := h2, grad := g2\<rparr>))
   \<and> (length g1 = length g2 \<longrightarrow>
        negativeSampling m wo (st\<lparr>grad := g1\<rparr>) target lr
        = negativeSampling m wo (st\<lparr>grad := g2\<rparr>) target lr)"
proof (intro conjI impI)
  assume "input \<noteq> []
      \<and> update forward m wi wo input targets targetIndex lr st = Inr (wi', wo', st')"
  then show "\<exists>lossValue st3.
         forward wo targets targetIndex
           (st\<lparr>hidden := map (\<lambda>j. (\<Sum>i\<leftarrow>input. wi ! nat i ! j) / real (length input))
                              [0..<length (hidden st)],
               grad := replicate (length (grad st)) 0\<rparr>) lr True
           = Inr (lossValue, wo', st3)
       \<and> grad st' = (if normalizeGradient m
                      then Vector_mul (grad st3) (1 / real (length input)) else grad st3)
       \<and> update_scatter wi (grad st') input = Inr wi'"
    using update_Inr_mean [of input forward m wi wo targets targetIndex lr st wi' wo' st']
    by blast
next
  assume "input \<noteq> [] \<and> length g1 = length g2 \<and> length h1 = length h2"
  then show "update forward m wi wo input targets targetIndex lr (st\<lparr>hidden := h1, grad := g1\<rparr>)
        = update forward m wi wo input targets targetIndex lr (st\<lparr>hidden := h2, grad := g2\<rparr>)"
    using update_buffers_irrelevant by blast
next
  assume "length g1 = length g2"
  then show "negativeSampling m wo (st\<lparr>grad := g1\<rparr>) target lr
        = negativeSampling m wo (st\<lparr>grad := g2\<rparr>) target lr"
    by (rule negativeSampling_grad_irrelevant)
qed

theorem update_gradient_zeroed_witness:
  "([0, 2] \<noteq> ([] :: int list)
     \<and> update (forward_ns m_ex) m_ex wi_ex wo_ex [0, 2] [2] 0 (1 / 2) st_ex
         = Inr ([[125 / 128, 255 / 128], [3, 4], [637 / 128, 1279 / 128]],
                [[- (1 / 2), - (3 / 2)], [- (3 / 4), - (11 / 8)], [1 / 2, 7 / 8]],
                st_ex\<lparr>lossValue := - (2 * ln (1 / 2)) - ln (3 / 4), nexamples := 1,
                      hidden := [3, 6], grad := [- (3 / 128), - (1 / 128)], rng := 2\<rparr>))
   \<and> (\<exists>lossValue st3.
         forward_ns m_ex wo_ex [2] 0 (st_ex\<lparr>hidden := [3, 6], grad := [0, 0]\<rparr>) (1 / 2) True
           = Inr (lossValue, [[- (1 / 2), - (3 / 2)], [- (3 / 4), - (11 / 8)], [1 / 2, 7 / 8]], st3)
       \<and> [- (3 / 128), - (1 / 128)] = Vector_mul (grad st3) (1 / 2)
       \<and> update_scatter wi_ex [- (3 / 128), - (1 / 128)] [0, 2]
           = Inr [[125 / 128, 255 / 128], [3, 4], [637 / 128, 1279 / 128]])
   \<and> (length [9, 9 :: real] = length [0, 0 :: real] \<and> length [7, 7 :: real] = length [3, 6 :: real])
   \<and> update (forward_ns m_ex) m_ex wi_ex wo_ex [0, 2] [2] 0 (1 / 2)
         (st_ex\<lparr>hidden := [7, 7], grad := [9, 9]\<rparr>)
       = update (forward_ns m_ex) m_ex wi_ex wo_ex [0, 2] [2] 0 (1 / 2)
         (st_ex\<lparr>hidden := [3, 6], grad := [0, 0]\<rparr>)
   \<and> negativeSampling m_ex wo_ex (st_ex\<lparr>grad := [9, 9]\<rparr>) 2 (1 / 2)
       = negativeSampling m_ex wo_ex (st_ex\<lparr>grad := [0, 0]\<rparr>) 2 (1 / 2)"
proof -
  let ?wi' = "[[125 / 128, 255 / 128], [3, 4], [637 / 128, 1279 / 128]] :: matrix"
  let ?wo' = "[[- (1 / 2), - (3 / 2)], [- (3 / 4), - (11 / 8)], [1 / 2, 7 / 8]] :: matrix"
  let ?st' = "st_ex\<lparr>lossValue := - (2 * ln (1 / 2)) - ln (3 / 4), nexamples := 1,
                         hidden := [3, 6], grad := [- (3 / 128), - (1 / 128)], rng := 2\<rparr>"
  have h1: "[0, 2] \<noteq> ([] :: int list)
        \<and> update (forward_ns m_ex) m_ex wi_ex wo_ex [0, 2] [2] 0 (1 / 2) st_ex
            = Inr (?wi', ?wo', ?st')"
    by (simp add: eval_defs getNegative_draw_ex0 getNegative_draw_ex1 upto.simps)
  have h2: "[0, 2] \<noteq> ([] :: int list) \<and> length [9, 9 :: real] = length [0, 0 :: real]
              \<and> length [7, 7 :: real] = length [3, 6 :: real]"
    "length [9, 9 :: real] = length [0, 0 :: real]"
    by simp_all
  have h3: "normalizeGradient m_ex" "grad ?st' = [- (3 / 128), - (1 / 128)]"
    "real (length [0, 2 :: int]) = 2"
    "st_ex\<lparr>hidden := map (\<lambda>j. (\<Sum>i\<leftarrow>[0, 2]. wi_ex ! nat i ! j) / 2)
                              [0..<length (hidden st_ex)],
               grad := replicate (length (grad st_ex)) 0\<rparr>
       = st_ex\<lparr>hidden := [3, 6], grad := [0, 0]\<rparr>"
    by (simp_all add: m_ex_def st_ex_def wi_ex_def upt_rec numeral_2_eq_2)
  note T = update_gradient_zeroed
    [of "[0, 2]" "forward_ns m_ex" m_ex wi_ex wo_ex "[2]" 0 "1 / 2" st_ex ?wi' ?wo' ?st'
        "[9, 9]" "[0, 0]" "[7, 7]" "[3, 6]" 2]
  from T h1 have raw: "\<exists>lossValue st3.
         forward_ns m_ex wo_ex [2] 0
           (st_ex\<lparr>hidden := map (\<lambda>j. (\<Sum>i\<leftarrow>[0, 2]. wi_ex ! nat i ! j)
                                        / real (length [0, 2 :: int]))
                              [0..<length (hidden st_ex)],
               grad := replicate (length (grad st_ex)) 0\<rparr>) (1 / 2) True
           = Inr (lossValue, ?wo', st3)
       \<and> grad ?st' = (if normalizeGradient m_ex
                      then Vector_mul (grad st3) (1 / real (length [0, 2 :: int]))
                      else grad st3)
       \<and> update_scatter wi_ex (grad ?st') [0, 2] = Inr ?wi'"
    by blast
  have c1: "\<exists>lossValue st3.
         forward_ns m_ex wo_ex [2] 0 (st_ex\<lparr>hidden := [3, 6], grad := [0, 0]\<rparr>) (1 / 2) True
           = Inr (lossValue, ?wo', st3)
       \<and> [- (3 / 128), - (1 / 128)] = Vector_mul (grad st3) (1 / 2)
       \<and> update_scatter wi_ex [- (3 / 128), - (1 / 128)] [0, 2] = Inr ?wi'"
    using raw by (simp only: h3 if_True)
  have c2: "update (forward_ns m_ex) m_ex wi_ex wo_ex [0, 2] [2] 0 (1 / 2)
         (st_ex\<lparr>hidden := [7, 7], grad := [9, 9]\<rparr>)
       = update (forward_ns m_ex) m_ex wi_ex wo_ex [0, 2] [2] 0 (1 / 2)
         (st_ex\<lparr>hidden := [3, 6], grad := [0, 0]\<rparr>)"
    using T h2(1) by blast
  have c3: "negativeSampling m_ex wo_ex (st_ex\<lparr>grad := [9, 9]\<rparr>) 2 (1 / 2)
       = negativeSampling m_ex wo_ex (st_ex\<lparr>grad := [0, 0]\<rparr>) 2 (1 / 2)"
    using T h2(2) by blast
  from h1 c1 c2 c3 show ?thesis by simp
qed

text \<open>
  The claim C9 as stated fails: the scattered gradient does not depend on the hidden
  vector, the targets and the learning rate only. Calls of \<open>update\<close> with negative
  sampling on the same input, targets and learning rate, the same input matrix (hence
  the same hidden vector \<open>[3, 6]\<close>) and the same buffers scatter the gradient
  \<open>[-3/128, -1/128]\<close> from sampler position 0, the gradient \<open>[1/128, -1/128]\<close> from
  the sampler position 1 that an earlier call may have left, and the gradient
  \<open>[-1/64, -1/64]\<close> with another output matrix.
\<close>

theorem update_gradient_sampler_counterexample:
  "update (forward_ns m_ex) m_ex wi_ex wo_ex [0, 2] [2] 0 (1 / 2) (st_ex\<lparr>rng := 0\<rparr>)
     = Inr ([[125 / 128, 255 / 128], [3, 4], [637 / 128, 1279 / 128]],
            [[- (1 / 2), - (3 / 2)], [- (3 / 4), - (11 / 8)], [1 / 2, 7 / 8]],
            st_ex\<lparr>lossValue := - (2 * ln (1 / 2)) - ln (3 / 4), nexamples := 1,
                  hidden := [3, 6], grad := [- (3 / 128), - (1 / 128)], rng := 2\<rparr>)
   \<and> update (forward_ns m_ex) m_ex wi_ex wo_ex [0, 2] [2] 0 (1 / 2) (st_ex\<lparr>rng := 1\<rparr>)
     = Inr ([[129 / 128, 255 / 128], [3, 4], [641 / 128, 1279 / 128]],
            [[1 / 4, 0], [- (3 / 4), - (11 / 8)], [1 / 2, 7 / 8]],
            st_ex\<lparr>lossValue := - ln (1 / 2) - ln (3 / 4), nexamples := 1,
                  hidden := [3, 6], grad := [1 / 128, - (1 / 128)], rng := 3\<rparr>)
   \<and> update (forward_ns m_ex) m_ex wi_ex [[1 / 4, 0], [0, 1 / 8], [1 / 8, 0]] [0, 2] [2] 0
        (1 / 2) (st_ex\<lparr>rng := 0\<rparr>)
     = Inr ([[63 / 64, 127 / 64], [3, 4], [319 / 64, 639 / 64]],
            [[- (1 / 2), - (3 / 2)], [- (3 / 4), - (11 / 8)], [7 / 8, 3 / 2]],
            st_ex\<lparr>lossValue := - (3 * ln (1 / 2)), nexamples := 1,
                  hidden := [3, 6], grad := [- (1 / 64), - (1 / 64)], rng := 2\<rparr>)
   \<and> [- (3 / 128), - (1 / 128)] \<noteq> [1 / 128, - (1 / 128 :: real)]
   \<and> [- (3 / 128), - (1 / 128)] \<noteq> [- (1 / 64), - (1 / 64 :: real)]"
  by (simp add: eval_defs getNegative_draw_ex0 getNegative_draw_ex1 getNegative_draw_ex2
      upto.simps)

section \<open>Duplicate ids in the input bag\<close>

lemma sum_list_by_count:
  fixes f :: "'a \<Rightarrow> real"
  assumes "finite A" and "set xs \<subseteq> A"
  shows "sum_list (map f xs) = (\<Sum>a\<in>A. real (count_list xs a) * f a)"
  using assms(2)
proof (induction xs)
  case Nil
  show ?case by simp
next
  case (Cons x xs)
  then have xA: "x \<in> A" and IH: "sum_list (map f xs) = (\<Sum>a\<in>A. real (count_list xs a) * f a)"
    by simp_all
  have "(\<Sum>a\<in>A. real (count_list (x # xs) a) * f a)
        = (\<Sum>a\<in>A. real (count_list xs a) * f a + (if a = x then f x else 0))"
    by (rule sum.cong) (auto simp add: algebra_simps)
  also have "\<dots> = (\<Sum>a\<in>A. real (count_list xs a) * f a) + (\<Sum>a\<in>A. if a = x then f x else 0)"
    by (rule sum.distrib)
  also have "(\<Sum>a\<in>A. if a = x then f x else 0) = f x"
    using assms(1) xA by simp
  finally show ?case using IH by simp
qed

lemma Matrix_addVectorToRow_Inr:
  assumes "Matrix_addVectorToRow A v i a = Inr A'"
  shows "row_ok A i (length v)"
    and "A' = A[nat i := map2 (\<lambda>x y. x + a * y) (A ! nat i) v]"
  using assms
  by (auto simp add: Matrix_addVectorToRow_def Matrix_addRow_def split: if_splits)

lemma update_scatter_count:
  "update_scatter wi g input = Inr wi' \<Longrightarrow>
   length wi' = length wi \<and>
   (\<forall>r<length wi. wi' ! r =
      (if int r \<in> set input
       then map2 (\<lambda>x y. x + real (count_list input (int r)) * y) (wi ! r) g
       else wi ! r))"
proof (induction input arbitrary: wi)
  case Nil
  then show ?case by simp
next
  case (Cons i rest)
  from Cons.prems obtain wi1 where s1: "Matrix_addVectorToRow wi g i 1 = Inr wi1"
    and s2: "update_scatter wi1 g rest = Inr wi'"
    by (auto simp add: bind_res_eq_Inr)
  note A = Matrix_addVectorToRow_Inr [OF s1]
  from A(1) have i0: "0 \<le> i" and iN: "nat i < length wi" and len: "length (wi ! nat i) = length g"
    by (auto simp add: row_ok_def)
  from A(2) have len1: "length wi1 = length wi" by simp
  from Cons.IH [OF s2] have L: "length wi' = length wi1"
    and R: "\<And>r. r < length wi1 \<Longrightarrow> wi' ! r =
      (if int r \<in> set rest
       then map2 (\<lambda>x y. x + real (count_list rest (int r)) * y) (wi1 ! r) g
       else wi1 ! r)"
    by simp_all
  have "wi' ! r =
      (if int r \<in> set (i # rest)
       then map2 (\<lambda>x y. x + real (count_list (i # rest) (int r)) * y) (wi ! r) g
       else wi ! r)" if r: "r < length wi" for r
  proof (cases "int r = i")
    case True
    then have rn: "r = nat i" by simp
    have w1: "wi1 ! r = map2 (\<lambda>x y. x + y) (wi ! r) g"
      using A(2) iN rn by simp
    show ?thesis
    proof (cases "int r \<in> set rest")
      case True
      have "map2 (\<lambda>x y. x + real (count_list rest (int r)) * y) (map2 (\<lambda>x y. x + y) (wi ! r) g) g
            = map2 (\<lambda>x y. x + real (count_list (i # rest) (int r)) * y) (wi ! r) g"
        using len rn \<open>int r = i\<close>
        by (intro nth_equalityI) (simp_all add: algebra_simps)
      with R [of r] r len1 w1 True show ?thesis by simp
    next
      case False
      then have "count_list rest (int r) = 0" by (simp add: count_list_0_iff)
      with R [of r] r len1 w1 False \<open>int r = i\<close> show ?thesis by simp
    qed
  next
    case False
    then have "r \<noteq> nat i" using i0 by auto
    then have "wi1 ! r = wi ! r" using A(2) by simp
    with R [of r] r len1 False show ?thesis by auto
  qed
  with L len1 show ?case by simp
qed

lemma computeHidden_counted:
  assumes "input \<noteq> []"
    and "\<forall>i\<in>set input. row_ok wi i (length (hidden st))"
  shows "computeHidden wi input st
           = Inr (st\<lparr>hidden := counted_mean wi input (length (hidden st))\<rparr>)"
proof -
  have "(\<Sum>i\<leftarrow>input. wi ! nat i ! j)
          = (\<Sum>i\<in>set input. real (count_list input i) * wi ! nat i ! j)" for j
    by (rule sum_list_by_count) simp_all
  with computeHidden_eq_mean [OF assms] show ?thesis
    by (simp add: counted_mean_def)
qed

lemma update_scatter_returns:
  "\<forall>i\<in>set input. row_ok wi i (length g) \<Longrightarrow> \<exists>wi'. update_scatter wi g input = Inr wi'"
proof (induction input arbitrary: wi)
  case Nil
  show ?case by simp
next
  case (Cons i rest)
  let ?wi1 = "wi[nat i := map2 (\<lambda>x y. x + 1 * y) (wi ! nat i) g]"
  from Cons.prems have ok: "row_ok wi i (length g)" by simp
  then have step: "Matrix_addVectorToRow wi g i 1 = Inr ?wi1"
    by (simp add: Matrix_addVectorToRow_def Matrix_addRow_def)
  have "row_ok ?wi1 k (length g)" if "row_ok wi k (length g)" for k
    using that ok by (cases "nat k = nat i") (auto simp add: row_ok_def)
  with Cons.prems have "\<forall>k\<in>set rest. row_ok ?wi1 k (length g)" by simp
  from Cons.IH [OF this] show ?case by (simp add: step)
qed

lemma update_scatter_counted:
  assumes "update_scatter wi g input = Inr wi'"
  shows "wi' = counted_scatter wi input g"
proof (rule nth_equalityI)
  show "length wi' = length (counted_scatter wi input g)"
    using update_scatter_count [OF assms] by (simp add: counted_scatter_def)
next
  fix r assume "r < length wi'"
  then have r: "r < length wi" using update_scatter_count [OF assms] by simp
  with update_scatter_count [OF assms] show "wi' ! r = counted_scatter wi input g ! r"
    by (simp add: counted_scatter_def)
qed

lemma update_scatter_eq:
  assumes "\<forall>i\<in>set input. row_ok wi i (length g)"
  shows "update_scatter wi g input = Inr (counted_scatter wi input g)"
  using update_scatter_returns [OF assms] update_scatter_counted by blast

lemma update_Inr_counted:
  assumes "input \<noteq> []"
    and "update forward m wi wo input targets targetIndex lr st = Inr (wi', wo', st')"
  shows "\<exists>lossValue st3.
           forward wo targets targetIndex
             (st\<lparr>hidden := counted_mean wi input (length (hidden st)),
                 grad := replicate (length (grad st)) 0\<rparr>) lr True
             = Inr (lossValue, wo', st3)
         \<and> st' = (if normalizeGradient m
                   then (incrementNExamples st3 lossValue)
                          \<lparr>grad := Vector_mul (grad st3) (1 / real (length input))\<rparr>
                   else incrementNExamples st3 lossValue)
         \<and> update_scatter wi (grad st') input = Inr wi'
         \<and> wi' = counted_scatter wi input (grad st')"
proof -
  from update_Inr_steps [OF assms] obtain st1 lossValue st3 where
    c: "computeHidden wi input st = Inr st1"
    and f: "forward wo targets targetIndex (st1\<lparr>grad := Vector_zero (grad st1)\<rparr>) lr True
             = Inr (lossValue, wo', st3)"
    and s: "st' = (if normalizeGradient m
                   then (incrementNExamples st3 lossValue)
                          \<lparr>grad := Vector_mul (grad (incrementNExamples st3 lossValue))
                                     (1 / real (length input))\<rparr>
                   else incrementNExamples st3 lossValue)"
    and u: "update_scatter wi (grad st') input = Inr wi'"
    by blast
  from computeHidden_counted [OF assms(1) computeHidden_rows [OF c]] c
  have st1: "st1 = st\<lparr>hidden := counted_mean wi input (length (hidden st))\<rparr>" by simp
  have st2: "st1\<lparr>grad := Vector_zero (grad st1)\<rparr>
               = st\<lparr>hidden := counted_mean wi input (length (hidden st)),
                     grad := replicate (length (grad st)) 0\<rparr>"
    by (simp add: st1 Vector_zero_def)
  have s': "st' = (if normalizeGradient m
                   then (incrementNExamples st3 lossValue)
                          \<lparr>grad := Vector_mul (grad st3) (1 / real (length input))\<rparr>
                   else incrementNExamples st3 lossValue)"
    using s by (simp add: incrementNExamples_def)
  from f st2 s' u update_scatter_counted [OF u] show ?thesis by auto
qed

lemma update_returns_counted:
  assumes ne: "input \<noteq> []"
    and rows: "\<forall>i\<in>set input. row_ok wi i (length (hidden st))"
    and f: "forward wo targets targetIndex
             (st\<lparr>hidden := counted_mean wi input (length (hidden st)),
                 grad := replicate (length (grad st)) 0\<rparr>) lr True
             = Inr (lv, wo', st3)"
    and len: "length (grad st3) = length (hidden st)"
    and st': "st' = (if normalizeGradient m
                   then (incrementNExamples st3 lv)
                          \<lparr>grad := Vector_mul (grad st3) (1 / real (length input))\<rparr>
                   else incrementNExamples st3 lv)"
  shows "update forward m wi wo input targets targetIndex lr st
           = Inr (counted_scatter wi input (grad st'), wo', st')"
proof -
  have c: "computeHidden wi input st
             = Inr (st\<lparr>hidden := counted_mean wi input (length (hidden st))\<rparr>)"
    using ne rows by (rule computeHidden_counted)
  have lg: "length (grad st') = length (hidden st)"
    using len st' by (simp add: incrementNExamples_def Vector_mul_def)
  have sc: "update_scatter wi (grad st') input = Inr (counted_scatter wi input (grad st'))"
    using rows by (intro update_scatter_eq) (simp add: lg)
  have g: "grad (incrementNExamples st3 lv) = grad st3"
    by (simp add: incrementNExamples_def)
  show ?thesis
  proof (cases "normalizeGradient m")
    case True
    with st' have "st' = (incrementNExamples st3 lv)
                          \<lparr>grad := Vector_mul (grad st3) (1 / real (length input))\<rparr>" by simp
    with ne c f sc True g show ?thesis
      by (simp add: update_def Vector_zero_def Let_def)
  next
    case False
    with st' have "st' = incrementNExamples st3 lv" by simp
    with ne c f sc False show ?thesis
      by (simp add: update_def Vector_zero_def Let_def)
  qed
qed

text \<open>
  Claim C10. \<open>update\<close> does not deduplicate its input. On a non-empty input of valid
  row ids it returns whenever the loss strategy returns a gradient of the width of the
  hidden vector, and in every returning run the loss strategy is entered with the hidden
  vector in which an id occurring \<open>n\<close> times contributes its row \<open>n\<close> times to the
  mean, and the input matrix returned is the one in which such a row has the (possibly
  normalized) gradient added \<open>n\<close> times, every other row being unchanged.
\<close>

theorem update_duplicates:
  "(input \<noteq> [] \<and> (\<forall>i\<in>set input. row_ok wi i (length (hidden st)))
      \<and> forward wo targets targetIndex
           (st\<lparr>hidden := counted_mean wi input (length (hidden st)),
               grad := replicate (length (grad st)) 0\<rparr>) lr True
           = Inr (lv, wo', st3)
      \<and> length (grad st3) = length (hidden st)
      \<and> st' = (if normalizeGradient m
                then (incrementNExamples st3 lv)
                       \<lparr>grad := Vector_mul (grad st3) (1 / real (length input))\<rparr>
                else incrementNExamples st3 lv) \<longrightarrow>
    update forward m wi wo input targets targetIndex lr st
      = Inr (counted_scatter wi input (grad st'), wo', st'))
   \<and> (input \<noteq> []
        \<and> update forward m wi wo input targets targetIndex lr st = Inr (wi1, wo1, st1) \<longrightarrow>
       (\<exists>lossValue st2.
           forward wo targets targetIndex
             (st\<lparr>hidden := counted_mean wi input (length (hidden st)),
                 grad := replicate (length (grad st)) 0\<rparr>) lr True
             = Inr (lossValue, wo1, st2)
         \<and> st1 = (if normalizeGradient m
                   then (incrementNExamples st2 lossValue)
                          \<lparr>grad := Vector_mul (grad st2) (1 / real (length input))\<rparr>
                   else incrementNExamples st2 lossValue)
         \<and> wi1 = counted_scatter wi input (grad st1)))"
proof (intro conjI impI)
  assume A: "input \<noteq> [] \<and> (\<forall>i\<in>set input. row_ok wi i (length (hidden st)))
      \<and> forward wo targets targetIndex
           (st\<lparr>hidden := counted_mean wi input (length (hidden st)),
               grad := replicate (length (grad st)) 0\<rparr>) lr True
           = Inr (lv, wo', st3)
      \<and> length (grad st3) = length (hidden st)
      \<and> st' = (if normalizeGradient m
                then (incrementNExamples st3 lv)
                       \<lparr>grad := Vector_mul (grad st3) (1 / real (length input))\<rparr>
                else incrementNExamples st3 lv)"
  then show "update forward m wi wo input targets targetIndex lr st
      = Inr (counted_scatter wi input (grad st'), wo', st')"
    using update_returns_counted [of input wi st forward wo targets targetIndex lr lv wo' st3 st' m]
    by blast
next
  assume "input \<noteq> []
        \<and> update forward m wi wo input targets targetIndex lr st = Inr (wi1, wo1, st1)"
  then show "\<exists>lossValue st2.
           forward wo targets targetIndex
             (st\<lparr>hidden := counted_mean wi input (length (hidden st)),
                 grad := replicate (length (grad st)) 0\<rparr>) lr True
             = Inr (lossValue, wo1, st2)
         \<and> st1 = (if normalizeGradient m
                   then (incrementNExamples st2 lossValue)
                          \<lparr>grad := Vector_mul (grad st2) (1 / real (length input))\<rparr>
                   else incrementNExamples st2 lossValue)
         \<and> wi1 = counted_scatter wi input (grad st1)"
    using update_Inr_counted [of input forward m wi wo targets targetIndex lr st wi1 wo1 st1]
    by blast
qed

theorem update_duplicates_witness:
  "([2, 0, 2] \<noteq> ([] :: int list)
      \<and> list_all (\<lambda>i. row_ok wi_ex i (length (hidden st_ex))) [2, 0, 2])
   \<and> count_list [2, 0, 2 :: int] 2 = 2 \<and> count_list [2, 0, 2 :: int] 0 = 1
   \<and> counted_mean wi_ex [2, 0, 2] (length (hidden st_ex))
       = [(1 * 1 + 2 * 5) / 3, (1 * 2 + 2 * 10) / 3]
   \<and> forward_ns m_ex wo_ex [2] 0
        (st_ex\<lparr>hidden := [11 / 3, 22 / 3], grad := [0, 0]\<rparr>) (1 / 2) True
       = Inr (- (2 * ln (1 / 2)) - ln (3 / 4),
              [[- (2 / 3), - (11 / 6)], [- (11 / 12), - (41 / 24)], [7 / 12, 25 / 24]],
              st_ex\<lparr>hidden := [11 / 3, 22 / 3], grad := [- (3 / 64), - (1 / 64)], rng := 2\<rparr>)
   \<and> counted_scatter wi_ex [2, 0, 2] [- (1 / 64), - (1 / 192)]
       = [[1 + 1 * - (1 / 64), 2 + 1 * - (1 / 192)], [3, 4],
          [5 + 2 * - (1 / 64), 10 + 2 * - (1 / 192)]]
   \<and> update (forward_ns m_ex) m_ex wi_ex wo_ex [2, 0, 2] [2] 0 (1 / 2) st_ex
       = Inr ([[63 / 64, 383 / 192], [3, 4], [159 / 32, 959 / 96]],
              [[- (2 / 3), - (11 / 6)], [- (11 / 12), - (41 / 24)], [7 / 12, 25 / 24]],
              st_ex\<lparr>lossValue := - (2 * ln (1 / 2)) - ln (3 / 4), nexamples := 1,
                    hidden := [11 / 3, 22 / 3], grad := [- (1 / 64), - (1 / 192)], rng := 2\<rparr>)
   \<and> (\<exists>lossValue st2.
         forward_ns m_ex wo_ex [2] 0
           (st_ex\<lparr>hidden := [11 / 3, 22 / 3], grad := [0, 0]\<rparr>) (1 / 2) True
           = Inr (lossValue,
                  [[- (2 / 3), - (11 / 6)], [- (11 / 12), - (41 / 24)], [7 / 12, 25 / 24]], st2)
       \<and> [[63 / 64, 383 / 192], [3, 4], [159 / 32, 959 / 96]]
           = counted_scatter wi_ex [2, 0, 2] [- (1 / 64), - (1 / 192)])"
proof -
  let ?wo' = "[[- (2 / 3), - (11 / 6)], [- (11 / 12), - (41 / 24)], [7 / 12, 25 / 24]] :: matrix"
  let ?lv = "- (2 * ln (1 / 2)) - ln (3 / 4) :: real"
  let ?st3 = "st_ex\<lparr>hidden := [11 / 3, 22 / 3], grad := [- (3 / 64), - (1 / 64)], rng := 2\<rparr>"
  let ?st' = "st_ex\<lparr>lossValue := ?lv, nexamples := 1,
                    hidden := [11 / 3, 22 / 3], grad := [- (1 / 64), - (1 / 192)], rng := 2\<rparr>"
  let ?st0 = "st_ex\<lparr>hidden := counted_mean wi_ex [2, 0, 2] (length (hidden st_ex)),
                   grad := replicate (length (grad st_ex)) 0\<rparr>"
  have ne: "[2, 0, 2] \<noteq> ([] :: int list)" by simp
  have rows: "\<forall>i\<in>set [2, 0, 2]. row_ok wi_ex i (length (hidden st_ex))"
    by (simp add: row_ok_def wi_ex_def st_ex_def)
  have s: "set [2, 0, 2 :: int] = {0, 2}" by auto
  have sums: "(\<Sum>i\<in>set [2, 0, 2]. real (count_list [2, 0, 2] i) * f i) = f 0 + 2 * f 2"
    for f :: "int \<Rightarrow> real"
    by (subst s) simp
  have cm: "counted_mean wi_ex [2, 0, 2] (length (hidden st_ex)) = [11 / 3, 22 / 3]"
    unfolding counted_mean_def sums by (simp add: wi_ex_def st_ex_def upt_rec)
  have st0: "?st0 = st_ex\<lparr>hidden := [11 / 3, 22 / 3], grad := [0, 0]\<rparr>"
    by (simp add: cm) (simp add: st_ex_def)
  have f: "forward_ns m_ex wo_ex [2] 0 ?st0 (1 / 2) True = Inr (?lv, ?wo', ?st3)"
    unfolding st0
    by (simp add: eval_defs getNegative_draw_ex0 getNegative_draw_ex1 upto.simps)
  have len: "length (grad ?st3) = length (hidden st_ex)" by (simp add: st_ex_def)
  have fin: "?st' = (if normalizeGradient m_ex
                then (incrementNExamples ?st3 ?lv)
                       \<lparr>grad := Vector_mul (grad ?st3) (1 / real (length [2, 0, 2 :: int]))\<rparr>
                else incrementNExamples ?st3 ?lv)"
    by (simp add: m_ex_def st_ex_def incrementNExamples_def Vector_mul_def)
  have g: "grad ?st' = [- (1 / 64), - (1 / 192)]" by (simp add: st_ex_def)
  have cs: "counted_scatter wi_ex [2, 0, 2] [- (1 / 64), - (1 / 192)]
              = [[63 / 64, 383 / 192], [3, 4], [159 / 32, 959 / 96]]"
    by (simp add: counted_scatter_def wi_ex_def upt_rec)
  note T = update_duplicates
    [of "[2, 0, 2]" wi_ex st_ex "forward_ns m_ex" wo_ex "[2]" 0 "1 / 2" ?lv ?wo' ?st3 ?st' m_ex
        "[[63 / 64, 383 / 192], [3, 4], [159 / 32, 959 / 96]]" ?wo' ?st']
  from T ne rows f len fin
  have u: "update (forward_ns m_ex) m_ex wi_ex wo_ex [2, 0, 2] [2] 0 (1 / 2) st_ex
             = Inr (counted_scatter wi_ex [2, 0, 2] (grad ?st'), ?wo', ?st')"
    by blast
  then have u': "update (forward_ns m_ex) m_ex wi_ex wo_ex [2, 0, 2] [2] 0 (1 / 2) st_ex
             = Inr ([[63 / 64, 383 / 192], [3, 4], [159 / 32, 959 / 96]], ?wo', ?st')"
    by (simp only: g cs)
  from T ne u' have "\<exists>lossValue st2.
         forward_ns m_ex wo_ex [2] 0 ?st0 (1 / 2) True = Inr (lossValue, ?wo', st2)
       \<and> [[63 / 64, 383 / 192], [3, 4], [159 / 32, 959 / 96]]
           = counted_scatter wi_ex [2, 0, 2] (grad ?st')"
    by blast
  then have c: "\<exists>lossValue st2.
         forward_ns m_ex wo_ex [2] 0
           (st_ex\<lparr>hidden := [11 / 3, 22 / 3], grad := [0, 0]\<rparr>) (1 / 2) True
           = Inr (lossValue, ?wo', st2)
       \<and> [[63 / 64, 383 / 192], [3, 4], [159 / 32, 959 / 96]]
           = counted_scatter wi_ex [2, 0, 2] [- (1 / 64), - (1 / 192)]"
    by (simp only: st0 g)
  have f': "forward_ns m_ex wo_ex [2] 0
        (st_ex\<lparr>hidden := [11 / 3, 22 / 3], grad := [0, 0]\<rparr>) (1 / 2) True
       = Inr (?lv, ?wo', ?st3)"
    using f by (simp only: st0)
  have la: "list_all (\<lambda>i. row_ok wi_ex i (length (hidden st_ex))) [2, 0, 2]"
    using rows by (simp add: list_all_iff)
  have cnt: "count_list [2, 0, 2 :: int] 2 = 2" "count_list [2, 0, 2 :: int] 0 = 1"
    by simp_all
  have cm': "counted_mean wi_ex [2, 0, 2] (length (hidden st_ex))
       = [(1 * 1 + 2 * 5) / 3, (1 * 2 + 2 * 10) / 3]"
    by (simp add: cm)
  have cs': "counted_scatter wi_ex [2, 0, 2] [- (1 / 64), - (1 / 192)]
       = [[1 + 1 * - (1 / 64), 2 + 1 * - (1 / 192)], [3, 4],
          [5 + 2 * - (1 / 64), 10 + 2 * - (1 / 192)]]"
    by (simp add: cs)
  show ?thesis
    by (intro conjI ne la cnt cm' f' cs' u' c)
qed

section \<open>Hierarchical softmax walks the stored path\<close>

lemma hierarchicalSoftmax_loop_steps:
  assumes len: "length pathToRoot \<le> length binaryCode"
  shows "k \<le> length pathToRoot \<Longrightarrow>
    hierarchicalSoftmax_loop m lr pathToRoot binaryCode [k..<length pathToRoot] (loss, wo, st) =
      bind_res (binaryLogistic_steps m lr (drop k (zip pathToRoot binaryCode)) wo st)
        (\<lambda>(xs, wo', st'). Inr (loss + sum_list xs, wo', st'))"
proof (induction "length pathToRoot - k" arbitrary: k loss wo st)
  case 0
  then have "k = length pathToRoot" by simp
  with len show ?case by simp
next
  case (Suc d)
  then have kn: "k < length pathToRoot" and d: "d = length pathToRoot - Suc k"
    and k1: "Suc k \<le> length pathToRoot" by simp_all
  let ?zs = "zip pathToRoot binaryCode"
  have zk: "k < length ?zs" using kn len by simp
  have kc: "k < length binaryCode" using kn len by simp
  have idx: "[k..<length pathToRoot] = k # [Suc k..<length pathToRoot]"
    using kn by (rule upt_conv_Cons)
  have dr: "drop k ?zs = (pathToRoot ! k, binaryCode ! k) # drop (Suc k) ?zs"
    using zk by (simp add: Cons_nth_drop_Suc [symmetric])
  note IH = Suc.hyps(1) [OF d k1]
  show ?case
  proof (cases "binaryLogistic m wo st (pathToRoot ! k) (binaryCode ! k) lr")
    case (Inl e)
    with kn kc show ?thesis by (simp add: idx dr)
  next
    case (Inr res)
    obtain x wo1 st1 where res: "res = (x, wo1, st1)" by (cases res) auto
    show ?thesis
    proof (cases "binaryLogistic_steps m lr (drop (Suc k) ?zs) wo1 st1")
      case (Inl e)
      with Inr res kn kc IH show ?thesis by (simp add: idx dr)
    next
      case inner: (Inr res2)
      obtain xs wo2 st2 where "res2 = (xs, wo2, st2)" by (cases res2) auto
      with inner Inr res kn kc IH show ?thesis by (simp add: idx dr add.assoc)
    qed
  qed
qed

text \<open>
  Claim C5. For a target with a stored code and a stored path that is not longer than
  the code, \<open>hierarchicalSoftmax\<close> zeroes the gradient and performs exactly one
  binary-logistic step per path node, in the order of the stored path, the label of the
  step at depth \<open>i\<close> being bit \<open>i\<close> of the target's code, and returns the sum of the
  losses of these steps (or the error of the first step that fails).
\<close>

theorem hierarchicalSoftmax_path_steps:
  assumes "0 \<le> target" and "target < int (length (codes m))"
    and "target < int (length (paths m))"
    and "length (paths m ! nat target) \<le> length (codes m ! nat target)"
  shows "hierarchicalSoftmax m wo st target lr =
    bind_res (binaryLogistic_steps m lr (zip (paths m ! nat target) (codes m ! nat target)) wo
                (st\<lparr>grad := Vector_zero (grad st)\<rparr>))
      (\<lambda>(xs, wo', st'). Inr (sum_list xs, wo', st'))"
  using assms
    hierarchicalSoftmax_loop_steps [of "paths m ! nat target"
      "codes m ! nat target" 0 m lr 0 wo "st\<lparr>grad := Vector_zero (grad st)\<rparr>"]
  by (simp add: hierarchicalSoftmax_def Let_def)


theorem hierarchicalSoftmax_path_steps_witness:
  "((0::int) \<le> 2 \<and> 2 < int (length (codes m_ex)) \<and> 2 < int (length (paths m_ex))
      \<and> length (paths m_ex ! nat 2) \<le> length (codes m_ex ! nat 2))
   \<and> zip (paths m_ex ! nat 2) (codes m_ex ! nat 2) = [(1, False), (0, False)]
   \<and> binaryLogistic_steps m_ex (1 / 2) [(1, False), (0, False)] wo_ex st_ex2
       = Inr ([- ln (1 / 2), - ln (1 / 2)],
              [[- (1 / 2), - (3 / 2)], [- (3 / 4), - (11 / 8)], [1 / 8, 1 / 8]],
              st_ex2\<lparr>grad := [- (1 / 16), - (1 / 32)]\<rparr>)
   \<and> hierarchicalSoftmax m_ex wo_ex (st_ex2\<lparr>grad := [9, 9]\<rparr>) 2 (1 / 2)
       = Inr (- ln (1 / 2) + - ln (1 / 2),
              [[- (1 / 2), - (3 / 2)], [- (3 / 4), - (11 / 8)], [1 / 8, 1 / 8]],
              st_ex2\<lparr>grad := [- (1 / 16), - (1 / 32)]\<rparr>)"
proof -
  have h: "(0::int) \<le> 2" "2 < int (length (codes m_ex))" "2 < int (length (paths m_ex))"
    "length (paths m_ex ! nat 2) \<le> length (codes m_ex ! nat 2)"
    by (simp_all add: m_ex_def)
  have z: "zip (paths m_ex ! nat 2) (codes m_ex ! nat 2) = [(1, False), (0, False)]"
    by (simp add: m_ex_def)
  have g: "st_ex2\<lparr>grad := [9, 9]\<rparr>\<lparr>grad := Vector_zero (grad (st_ex2\<lparr>grad := [9, 9]\<rparr>))\<rparr>
            = st_ex2"
    by (simp add: st_ex2_def st_ex_def Vector_zero_def)
  have e: "binaryLogistic_steps m_ex (1 / 2) [(1, False), (0, False)] wo_ex st_ex2
       = Inr ([- ln (1 / 2), - ln (1 / 2)],
              [[- (1 / 2), - (3 / 2)], [- (3 / 4), - (11 / 8)], [1 / 8, 1 / 8]],
              st_ex2\<lparr>grad := [- (1 / 16), - (1 / 32)]\<rparr>)"
    by (simp add: eval_defs st_ex2_def)
  from hierarchicalSoftmax_path_steps [OF h, of wo_ex "st_ex2\<lparr>grad := [9, 9]\<rparr>" "1 / 2"]
  have "hierarchicalSoftmax m_ex wo_ex (st_ex2\<lparr>grad := [9, 9]\<rparr>) 2 (1 / 2)
       = Inr (- ln (1 / 2) + - ln (1 / 2),
              [[- (1 / 2), - (3 / 2)], [- (3 / 4), - (11 / 8)], [1 / 8, 1 / 8]],
              st_ex2\<lparr>grad := [- (1 / 16), - (1 / 32)]\<rparr>)"
    unfolding z g e by simp
  with h z e show ?thesis by simp
qed


section \<open>Negative sampling: one positive step and neg negative steps\<close>

lemma getNegative_draw_returns:
  "pos < length negs \<Longrightarrow> negs ! ((pos + k) mod length negs) \<noteq> target \<Longrightarrow>
   \<exists>v p. getNegative_draw negs target pos = Some (Inr (v, p))
        \<and> v \<in> set negs \<and> v \<noteq> target \<and> p < length negs"
proof (induction k arbitrary: pos)
  case 0
  then have "0 < length negs" by arith
  with 0 show ?case
    by (subst getNegative_draw.simps) auto
next
  case (Suc k)
  from Suc.prems(1) have n0: "0 < length negs" by arith
  show ?case
  proof (cases "target = negs ! pos")
    case False
    with Suc.prems(1) n0 show ?thesis
      by (subst getNegative_draw.simps) auto
  next
    case True
    let ?pos' = "(pos + 1) mod length negs"
    have p': "?pos' < length negs" using n0 by (rule mod_less_divisor)
    have "(?pos' + k) mod length negs = (pos + Suc k) mod length negs"
      by (simp add: mod_add_left_eq)
    with Suc.prems(2) have "negs ! ((?pos' + k) mod length negs) \<noteq> target" by simp
    from Suc.IH [OF p' this] True Suc.prems(1) show ?thesis
      by (subst getNegative_draw.simps) (simp del: One_nat_def)
  qed
qed

lemma getNegative_returns:
  assumes "rng st < length (negatives m)" and "\<exists>x\<in>set (negatives m). x \<noteq> target"
  shows "\<exists>v p. getNegative m target st = Inr (v, st\<lparr>rng := p\<rparr>)
        \<and> v \<in> set (negatives m) \<and> v \<noteq> target \<and> p < length (negatives m)"
proof -
  let ?n = "length (negatives m)"
  from assms(2) obtain j where j: "j < ?n" "negatives m ! j \<noteq> target"
    by (auto simp add: in_set_conv_nth)
  have "(rng st + (j + ?n - rng st)) mod ?n = j"
    using assms(1) j(1) by simp
  with j(2) have "negatives m ! ((rng st + (j + ?n - rng st)) mod ?n) \<noteq> target" by simp
  from getNegative_draw_returns [OF assms(1) this] show ?thesis
    by (auto simp add: getNegative_def)
qed

lemma binaryLogistic_rng:
  "binaryLogistic m wo (st\<lparr>rng := q\<rparr>) t l lr =
     bind_res (binaryLogistic m wo st t l lr) (\<lambda>(x, wo', st'). Inr (x, wo', st'\<lparr>rng := q\<rparr>))"
  by (simp add: binaryLogistic_def bind_res_def Let_def split: sum.splits)

lemma binaryLogistic_keeps_rng:
  "binaryLogistic m wo st t l lr = Inr (x, wo', st') \<Longrightarrow> rng st' = rng st"
  by (auto simp add: binaryLogistic_def bind_res_eq_Inr Let_def)

lemma binaryLogistic_steps_rng:
  "binaryLogistic_steps m lr ts wo (st\<lparr>rng := q\<rparr>) =
     bind_res (binaryLogistic_steps m lr ts wo st)
       (\<lambda>(xs, wo', st'). Inr (xs, wo', st'\<lparr>rng := q\<rparr>))"
proof (induction ts arbitrary: wo st)
  case Nil
  show ?case by simp
next
  case (Cons a ts)
  obtain t l where a: "a = (t, l)" by (cases a)
  show ?case
    by (simp add: a binaryLogistic_rng Cons.IH bind_res_def split: sum.splits prod.splits)
qed

lemma negativeSampling_loop_steps:
  assumes tab: "\<exists>x\<in>set (negatives m). x \<noteq> target"
  shows "\<forall>n\<in>set idx. n \<noteq> 0 \<Longrightarrow> r < length (negatives m) \<Longrightarrow>
    \<exists>ns p. length ns = length idx
         \<and> (\<forall>n\<in>set ns. n \<in> set (negatives m) \<and> n \<noteq> target)
         \<and> p < length (negatives m)
         \<and> (\<forall>loss wo st. rng st = r \<longrightarrow>
               negativeSampling_loop m target lr idx (loss, wo, st) =
                 bind_res (binaryLogistic_steps m lr (map (\<lambda>n. (n, False)) ns) wo st)
                   (\<lambda>(xs, wo', st'). Inr (loss + sum_list xs, wo', st'\<lparr>rng := p\<rparr>)))"
proof (induction idx arbitrary: r)
  case Nil
  have "\<forall>loss wo st. rng st = r \<longrightarrow>
          negativeSampling_loop m target lr [] (loss, wo, st) =
            bind_res (binaryLogistic_steps m lr (map (\<lambda>n. (n, False)) []) wo st)
              (\<lambda>(xs, wo', st'). Inr (loss + sum_list xs, wo', st'\<lparr>rng := r\<rparr>))"
    by auto
  with Nil.prems(2) show ?case
    by (intro exI [of _ "[]"] exI [of _ r]) simp
next
  case (Cons i idx)
  from Cons.prems have i0: "i \<noteq> 0" and rest0: "\<forall>n\<in>set idx. n \<noteq> 0" by simp_all
  have "\<exists>v p1. (\<forall>st. rng st = r \<longrightarrow> getNegative m target st = Inr (v, st\<lparr>rng := p1\<rparr>))
        \<and> v \<in> set (negatives m) \<and> v \<noteq> target \<and> p1 < length (negatives m)"
  proof -
    let ?st0 = "\<lparr>lossValue = 0, nexamples = 0, hidden = [], output_vec = [], grad = [], rng = r\<rparr>"
    from getNegative_returns [of ?st0 m target] Cons.prems(2) tab
    obtain v p1 where d: "getNegative m target ?st0 = Inr (v, ?st0\<lparr>rng := p1\<rparr>)"
      and props: "v \<in> set (negatives m)" "v \<noteq> target" "p1 < length (negatives m)"
      by auto
    from d have "getNegative_draw (negatives m) target r = Some (Inr (v, p1))"
      by (auto simp add: getNegative_def bind_res_eq_Inr split: option.splits)
    then have "\<forall>st. rng st = r \<longrightarrow> getNegative m target st = Inr (v, st\<lparr>rng := p1\<rparr>)"
      by (simp add: getNegative_def)
    with props show ?thesis by blast
  qed
  then obtain v p1 where
    draw: "\<And>st. rng st = r \<Longrightarrow> getNegative m target st = Inr (v, st\<lparr>rng := p1\<rparr>)"
    and v: "v \<in> set (negatives m)" "v \<noteq> target" and p1: "p1 < length (negatives m)"
    by blast
  from Cons.IH [OF rest0 p1] obtain ns p where
    len: "length ns = length idx"
    and ns: "\<forall>n\<in>set ns. n \<in> set (negatives m) \<and> n \<noteq> target"
    and p: "p < length (negatives m)"
    and run: "\<And>loss wo st. rng st = p1 \<Longrightarrow>
               negativeSampling_loop m target lr idx (loss, wo, st) =
                 bind_res (binaryLogistic_steps m lr (map (\<lambda>n. (n, False)) ns) wo st)
                   (\<lambda>(xs, wo', st'). Inr (loss + sum_list xs, wo', st'\<lparr>rng := p\<rparr>))"
    by blast
  have "negativeSampling_loop m target lr (i # idx) (loss, wo, st) =
          bind_res (binaryLogistic_steps m lr (map (\<lambda>n. (n, False)) (v # ns)) wo st)
            (\<lambda>(xs, wo', st'). Inr (loss + sum_list xs, wo', st'\<lparr>rng := p\<rparr>))"
    if r: "rng st = r" for loss wo st
  proof (cases "binaryLogistic m wo st v False lr")
    case (Inl e)
    with i0 draw [OF r] show ?thesis by (simp add: binaryLogistic_rng)
  next
    case (Inr res)
    obtain x wo1 st1 where res: "res = (x, wo1, st1)" by (cases res) auto
    have r1: "rng (st1\<lparr>rng := p1\<rparr>) = p1" by simp
    have "negativeSampling_loop m target lr (i # idx) (loss, wo, st) =
            negativeSampling_loop m target lr idx (loss + x, wo1, st1\<lparr>rng := p1\<rparr>)"
      using i0 draw [OF r] Inr res by (simp add: binaryLogistic_rng)
    also have "\<dots> = bind_res (binaryLogistic_steps m lr (map (\<lambda>n. (n, False)) ns) wo1 st1)
                   (\<lambda>(xs, wo', st'). Inr (loss + x + sum_list xs, wo', st'\<lparr>rng := p\<rparr>))"
      by (simp add: run [OF r1] binaryLogistic_steps_rng bind_res_def
          split: sum.splits prod.splits)
    also have "\<dots> = bind_res (binaryLogistic_steps m lr (map (\<lambda>n. (n, False)) (v # ns)) wo st)
            (\<lambda>(xs, wo', st'). Inr (loss + sum_list xs, wo', st'\<lparr>rng := p\<rparr>))"
      using Inr res by (simp add: bind_res_def add.assoc split: sum.splits prod.splits)
    finally show ?thesis .
  qed
  with len ns p v show ?case
    by (intro exI [of _ "v # ns"] exI [of _ p]) simp
qed

text \<open>
  Claim C4. With a non-negative number \<open>neg\<close> of negatives, a sampling position inside
  the table and a table holding some id other than the target, \<open>negativeSampling\<close>
  returns, and what it does is: zero the gradient, one binary-logistic step on the target
  with label true, then \<open>neg\<close> binary-logistic steps with label false on ids \<open>ns\<close>
  that are entries of the table and differ from the target; its loss is the sum of the
  losses of these \<open>neg + 1\<close> steps (or the error of the first step that fails).
\<close>

theorem negativeSampling_steps:
  assumes "0 \<le> neg m" and "rng st < length (negatives m)"
    and "\<exists>x\<in>set (negatives m). x \<noteq> target"
  shows "\<exists>ns p. length ns = nat (neg m)
         \<and> (\<forall>n\<in>set ns. n \<in> set (negatives m) \<and> n \<noteq> target)
         \<and> p < length (negatives m)
         \<and> negativeSampling m wo st target lr =
             bind_res (binaryLogistic_steps m lr ((target, True) # map (\<lambda>n. (n, False)) ns) wo
                         (st\<lparr>grad := Vector_zero (grad st)\<rparr>))
               (\<lambda>(xs, wo', st'). Inr (sum_list xs, wo', st'\<lparr>rng := p\<rparr>))"
proof -
  let ?st0 = "st\<lparr>grad := Vector_zero (grad st)\<rparr>"
  have up: "[0..neg m] = 0 # [1..neg m]"
    using assms(1) by (simp add: upto_rec1)
  have nz: "\<forall>n\<in>set [1..neg m]. n \<noteq> 0" by auto
  from negativeSampling_loop_steps [OF assms(3) nz assms(2), of lr]
  obtain ns p where len: "length ns = length [1..neg m]"
    and ns: "\<forall>n\<in>set ns. n \<in> set (negatives m) \<and> n \<noteq> target"
    and p: "p < length (negatives m)"
    and run: "\<And>loss wo st'. rng st' = rng st \<Longrightarrow>
               negativeSampling_loop m target lr [1..neg m] (loss, wo, st') =
                 bind_res (binaryLogistic_steps m lr (map (\<lambda>n. (n, False)) ns) wo st')
                   (\<lambda>(xs, wo', st''). Inr (loss + sum_list xs, wo', st''\<lparr>rng := p\<rparr>))"
    by blast
  have len': "length ns = nat (neg m)" using len assms(1) by simp
  have "negativeSampling m wo st target lr =
             bind_res (binaryLogistic_steps m lr ((target, True) # map (\<lambda>n. (n, False)) ns) wo ?st0)
               (\<lambda>(xs, wo', st'). Inr (sum_list xs, wo', st'\<lparr>rng := p\<rparr>))"
  proof (cases "binaryLogistic m wo ?st0 target True lr")
    case (Inl e)
    then show ?thesis by (simp add: negativeSampling_def up)
  next
    case (Inr res)
    obtain x wo1 st1 where res: "res = (x, wo1, st1)" by (cases res) auto
    from Inr res have "rng st1 = rng ?st0" by (auto dest: binaryLogistic_keeps_rng)
    then have r1: "rng st1 = rng st" by simp
    show ?thesis
      using Inr res
      by (simp add: negativeSampling_def up run [OF r1] bind_res_def
          split: sum.splits prod.splits)
  qed
  with len' ns p show ?thesis by blast
qed

theorem negativeSampling_steps_witness:
  "(0 \<le> neg m_ex \<and> rng st_ex2 < length (negatives m_ex) \<and> (\<exists>x\<in>set (negatives m_ex). x \<noteq> 2))
   \<and> (\<exists>ns p. length ns = nat (neg m_ex)
         \<and> (\<forall>n\<in>set ns. n \<in> set (negatives m_ex) \<and> n \<noteq> 2)
         \<and> p < length (negatives m_ex)
         \<and> negativeSampling m_ex wo_ex st_ex2 2 (1 / 2) =
             bind_res (binaryLogistic_steps m_ex (1 / 2) ((2, True) # map (\<lambda>n. (n, False)) ns)
                         wo_ex (st_ex2\<lparr>grad := Vector_zero (grad st_ex2)\<rparr>))
               (\<lambda>(xs, wo', st'). Inr (sum_list xs, wo', st'\<lparr>rng := p\<rparr>)))
   \<and> binaryLogistic_steps m_ex (1 / 2) [(2, True), (0, False), (1, False)] wo_ex st_ex2
       = Inr ([- ln (3 / 4), - ln (1 / 2), - ln (1 / 2)],
              [[- (1 / 2), - (3 / 2)], [- (3 / 4), - (11 / 8)], [1 / 2, 7 / 8]],
              st_ex2\<lparr>grad := [- (3 / 64), - (1 / 64)]\<rparr>)
   \<and> negativeSampling m_ex wo_ex st_ex2 2 (1 / 2)
       = Inr (- ln (3 / 4) + (- ln (1 / 2) + - ln (1 / 2)),
              [[- (1 / 2), - (3 / 2)], [- (3 / 4), - (11 / 8)], [1 / 2, 7 / 8]],
              st_ex2\<lparr>grad := [- (3 / 64), - (1 / 64)], rng := 2\<rparr>)"
proof -
  have h: "0 \<le> neg m_ex" "rng st_ex2 < length (negatives m_ex)"
    "\<exists>x\<in>set (negatives m_ex). x \<noteq> 2"
    by (simp_all add: m_ex_def st_ex2_def st_ex_def)
  have e: "binaryLogistic_steps m_ex (1 / 2) [(2, True), (0, False), (1, False)] wo_ex st_ex2
       = Inr ([- ln (3 / 4), - ln (1 / 2), - ln (1 / 2)],
              [[- (1 / 2), - (3 / 2)], [- (3 / 4), - (11 / 8)], [1 / 2, 7 / 8]],
              st_ex2\<lparr>grad := [- (3 / 64), - (1 / 64)]\<rparr>)"
    by (simp add: eval_defs st_ex2_def)
  have n: "negativeSampling m_ex wo_ex st_ex2 2 (1 / 2)
       = Inr (- ln (3 / 4) + (- ln (1 / 2) + - ln (1 / 2)),
              [[- (1 / 2), - (3 / 2)], [- (3 / 4), - (11 / 8)], [1 / 2, 7 / 8]],
              st_ex2\<lparr>grad := [- (3 / 64), - (1 / 64)], rng := 2\<rparr>)"
    by (simp add: eval_defs st_ex2_def getNegative_draw_ex0 getNegative_draw_ex1 upto.simps)
  from negativeSampling_steps [OF h, of wo_ex "1 / 2"] h e n
  show ?thesis by blast
qed

end
